theory Spec2Isabelle
  imports Main "HOL-Library.Word"
begin

section \<open>Grammar and errors\<close>

text \<open>
  Go strings and byte slices are both sequences of bytes, and the conversions
  \<^verbatim>\<open>[]byte(s)\<close> and \<^verbatim>\<open>string(b)\<close> keep the bytes. Both are modelled as lists of
  \<^typ>\<open>char\<close>, the 8-bit character type; \<^verbatim>\<open>len\<close> is \<^const>\<open>length\<close>.
\<close>

type_synonym bytes = "char list"

text \<open>
  The error kinds of the package. An error built with \<^verbatim>\<open>fmt.Errorf("%w: ...", ErrX)\<close>
  wraps \<^verbatim>\<open>ErrX\<close> and is modelled by its kind. \<open>ErrScanType\<close> is the unwrapped
  error of \<^verbatim>\<open>Scan\<close> on an unsupported source type, and \<open>PanicNilDereference\<close> the
  run-time panic of a method call through a nil pointer.
\<close>

datatype error =
    ErrInvalidFormat
  | ErrInvalidNamespace
  | ErrInvalidReference
  | ErrInvalidAddress
  | ErrEmptyValue
  | ErrScanType
  | PanicNilDereference

definition in_range :: "char \<Rightarrow> char \<Rightarrow> char \<Rightarrow> bool" where
  "in_range lo hi c = ((of_char lo :: nat) \<le> of_char c \<and> (of_char c :: nat) \<le> of_char hi)"

text \<open>The character classes of the regular expressions.\<close>

definition namespace_char :: "char \<Rightarrow> bool" where
  "namespace_char c =
     (c = CHR ''-'' \<or> in_range CHR ''a'' CHR ''z'' c \<or> in_range CHR ''0'' CHR ''9'' c)"

definition reference_char :: "char \<Rightarrow> bool" where
  "reference_char c =
     (c = CHR ''-'' \<or> c = CHR ''_'' \<or> in_range CHR ''a'' CHR ''z'' c \<or>
      in_range CHR ''A'' CHR ''Z'' c \<or> in_range CHR ''0'' CHR ''9'' c)"

definition address_char :: "char \<Rightarrow> bool" where
  "address_char c =
     (c = CHR ''-'' \<or> c = CHR ''.'' \<or> c = CHR ''%'' \<or> in_range CHR ''a'' CHR ''z'' c \<or>
      in_range CHR ''A'' CHR ''Z'' c \<or> in_range CHR ''0'' CHR ''9'' c)"

text \<open>\<^verbatim>\<open>[1-9A-HJ-NP-Za-km-z]\<close>, the base58 alphabet.\<close>

definition base58_char :: "char \<Rightarrow> bool" where
  "base58_char c =
     (in_range CHR ''1'' CHR ''9'' c \<or> in_range CHR ''A'' CHR ''H'' c \<or>
      in_range CHR ''J'' CHR ''N'' c \<or> in_range CHR ''P'' CHR ''Z'' c \<or>
      in_range CHR ''a'' CHR ''k'' c \<or> in_range CHR ''m'' CHR ''z'' c)"

text \<open>\<^verbatim>\<open>[qpzry9x8gf2tvdw0s3jn54khce6mua7l]\<close>, the bech32 alphabet.\<close>

definition bech32_char :: "char \<Rightarrow> bool" where
  "bech32_char c = (c \<in> set ''qpzry9x8gf2tvdw0s3jn54khce6mua7l'')"

definition hex_lower_char :: "char \<Rightarrow> bool" where
  "hex_lower_char c = (in_range CHR ''a'' CHR ''f'' c \<or> in_range CHR ''0'' CHR ''9'' c)"

definition digit_char :: "char \<Rightarrow> bool" where
  "digit_char c = in_range CHR ''0'' CHR ''9'' c"

text \<open>
  A pattern \<^verbatim>\<open>^[class]{lo,hi}$\<close> matches the strings of \<open>lo\<close> to \<open>hi\<close> characters of the
  class (Go's \<^verbatim>\<open>$\<close> matches at the end of the text only).
\<close>

definition class_rep :: "(char \<Rightarrow> bool) \<Rightarrow> nat \<Rightarrow> nat \<Rightarrow> string \<Rightarrow> bool" where
  "class_rep P lo hi s = (lo \<le> length s \<and> length s \<le> hi \<and> list_all P s)"

definition NamespaceRegex :: "string \<Rightarrow> bool" where
  "NamespaceRegex s = class_rep namespace_char 3 8 s"

definition ReferenceRegex :: "string \<Rightarrow> bool" where
  "ReferenceRegex s = class_rep reference_char 1 32 s"

definition AddressRegex :: "string \<Rightarrow> bool" where
  "AddressRegex s = class_rep address_char 1 128 s"

text \<open>
  The loop \<^verbatim>\<open>for i < len(s) && s[i] != ':' { i++ }\<close>, started at \<open>i\<close>: the index of the
  first colon at or after \<open>i\<close>, or \<open>len(s)\<close>.
\<close>

function scan_colon :: "string \<Rightarrow> nat \<Rightarrow> nat" where
  "scan_colon s i = (if i < length s \<and> s ! i \<noteq> CHR '':'' then scan_colon s (Suc i) else i)"
  by pat_completeness auto
termination
  by (relation "measure (\<lambda>(s, i). length s - i)") auto

declare scan_colon.simps [simp del]

text \<open>The slice \<^verbatim>\<open>s[lo:hi]\<close>, used with \<open>lo \<le> hi \<le> len(s)\<close> only.\<close>

definition subslice :: "'a list \<Rightarrow> nat \<Rightarrow> nat \<Rightarrow> 'a list" where
  "subslice s lo hi = take (hi - lo) (drop lo s)"

definition SplitCAIP10 :: "string \<Rightarrow> error + (string \<times> string \<times> string)" where
  "SplitCAIP10 s =
     (if length s = 0 then Inl ErrEmptyValue
      else
        let i = scan_colon s 0 in
        if i \<ge> length s then Inl ErrInvalidFormat
        else
          let j = scan_colon s (i + 1) in
          if j \<ge> length s then Inl ErrInvalidFormat
          else Inr (take i s, subslice s (i + 1) j, drop (j + 1) s))"

definition SplitCAIP2 :: "string \<Rightarrow> error + (string \<times> string)" where
  "SplitCAIP2 s =
     (if length s = 0 then Inl ErrEmptyValue
      else
        let i = scan_colon s 0 in
        if i \<ge> length s then Inl ErrInvalidFormat
        else
          let reference = drop (i + 1) s in
          if list_ex (\<lambda>j. reference ! j = CHR '':'') [0..<length reference]
          then Inl ErrInvalidFormat
          else Inr (take i s, reference))"

section \<open>Numbers of the standard library\<close>

text \<open>The value of a string of decimal digits.\<close>

definition digits_value :: "string \<Rightarrow> nat" where
  "digits_value s = foldl (\<lambda>n c. 10 * n + (of_char c - 48)) 0 s"

text \<open>
  \<^verbatim>\<open>new(big.Int).SetString(s, 10)\<close>: an optional sign, then one or more decimal digits,
  and nothing else; \<open>None\<close> is \<^verbatim>\<open>ok == false\<close>.
\<close>

definition big_SetString :: "string \<Rightarrow> int option" where
  "big_SetString s =
     (case s of
        [] \<Rightarrow> None
      | c # r \<Rightarrow>
          if c = CHR ''-'' then
            (if r \<noteq> [] \<and> list_all digit_char r then Some (- int (digits_value r)) else None)
          else if c = CHR ''+'' then
            (if r \<noteq> [] \<and> list_all digit_char r then Some (int (digits_value r)) else None)
          else
            (if list_all digit_char s then Some (int (digits_value s)) else None))"

text \<open>
  \<^verbatim>\<open>strconv.ParseUint(s, 10, 64)\<close>: one or more decimal digits, no sign, a value below
  \<open>2^64\<close>; \<open>None\<close> is an error.
\<close>

definition ParseUint64 :: "string \<Rightarrow> nat option" where
  "ParseUint64 s =
     (if s \<noteq> [] \<and> list_all digit_char s \<and> digits_value s < 2 ^ 64
      then Some (digits_value s) else None)"

text \<open>The decimal digits of a natural number, without leading zeros.\<close>

definition digit :: "nat \<Rightarrow> char" where
  "digit d = ''0123456789'' ! d"

fun nat_digits :: "nat \<Rightarrow> string" where
  "nat_digits n =
     (if n < 10 then [digit n]
      else nat_digits (n div 10) @ [digit (n mod 10)])"

declare nat_digits.simps [simp del]

text \<open>\<^verbatim>\<open>(*big.Int).String()\<close>: the decimal form, with a minus sign when negative.\<close>

definition big_String :: "int \<Rightarrow> string" where
  "big_String n = (if n < 0 then CHR ''-'' # nat_digits (nat (- n)) else nat_digits (nat n))"

text \<open>\<^verbatim>\<open>strings.Split(s, ":")\<close>: the pieces of \<open>s\<close> between its colons.\<close>

fun strings_Split :: "string \<Rightarrow> string list" where
  "strings_Split [] = [[]]"
| "strings_Split (c # s) =
     (if c = CHR '':'' then [] # strings_Split s
      else (case strings_Split s of [] \<Rightarrow> [[c]] | p # ps \<Rightarrow> (c # p) # ps))"

section \<open>External collaborators\<close>

text \<open>
  The Ethereum address type with its hex codec (\<^verbatim>\<open>ecommon.Address\<close>) and the Solana
  public key with its base58 codec (\<^verbatim>\<open>web3.PublicKey\<close>) are libraries outside the
  repository. The model takes them as parameters: the two types are the type variables
  \<open>'addr\<close> and \<open>'pk\<close>, and their operations the fields of a record.
  \<^item> \<open>Hex\<close> is \<^verbatim>\<open>Address.Hex()\<close> and \<open>HexToAddress\<close> is \<^verbatim>\<open>ecommon.HexToAddress\<close>, which
    returns an address for every string;
  \<^item> \<open>NewPublicKey\<close> is \<^verbatim>\<open>web3.NewPublicKey\<close>, \<open>None\<close> where it returns an error;
    \<open>PublicKey_Bytes\<close> is \<^verbatim>\<open>PublicKey.Bytes()\<close> and \<open>PublicKey_String\<close> is
    \<^verbatim>\<open>PublicKey.String()\<close>.
\<close>

record ('addr, 'pk) ext =
  Hex :: "'addr \<Rightarrow> string"
  HexToAddress :: "string \<Rightarrow> 'addr"
  NewPublicKey :: "string \<Rightarrow> 'pk option"
  PublicKey_Bytes :: "'pk \<Rightarrow> bytes"
  PublicKey_String :: "'pk \<Rightarrow> string"

section \<open>The data model\<close>

record GenericAccountID =
  namespace :: string
  reference :: string
  address :: string

record ChainID =
  Namespace :: string
  Reference :: string

text \<open>
  The namespace variants embed a \<^verbatim>\<open>*GenericAccountID\<close>. A pointer is an option,
  \<open>None\<close> for nil; \<^verbatim>\<open>*big.Int\<close> is an optional \<^typ>\<open>int\<close>.
\<close>

record 'addr eip155AccountID =
  eip155_base :: "GenericAccountID option"
  ethAddr :: 'addr
  chainID :: "int option"

record 'pk solanaAccountID =
  solana_base :: "GenericAccountID option"
  pubkey :: 'pk

record bip122AccountID =
  bip122_base :: "GenericAccountID option"
  network :: string

text \<open>
  A non-nil value of the interface \<^verbatim>\<open>AccountID\<close>: one of the four pointer types that
  implement it, the pointer itself possibly nil. A value of the interface that may be
  nil is an option of this type.
\<close>

datatype ('addr, 'pk) AccountID =
    Generic "GenericAccountID option"
  | EIP155 "'addr eip155AccountID option"
  | Solana "'pk solanaAccountID option"
  | BIP122 "bip122AccountID option"

abbreviation NamespaceEIP155 :: string where "NamespaceEIP155 \<equiv> ''eip155''"
abbreviation NamespaceSolana :: string where "NamespaceSolana \<equiv> ''solana''"
abbreviation NamespaceBIP122 :: string where "NamespaceBIP122 \<equiv> ''bip122''"

subsection \<open>The generic identifier: accessors\<close>

definition newGenericUnchecked :: "string \<Rightarrow> string \<Rightarrow> string \<Rightarrow> GenericAccountID option" where
  "newGenericUnchecked ns ref addr = Some \<lparr>namespace = ns, reference = ref, address = addr\<rparr>"

definition GenericAccountID_Namespace :: "GenericAccountID option \<Rightarrow> string" where
  "GenericAccountID_Namespace a = (case a of None \<Rightarrow> [] | Some g \<Rightarrow> namespace g)"

definition GenericAccountID_Reference :: "GenericAccountID option \<Rightarrow> string" where
  "GenericAccountID_Reference a = (case a of None \<Rightarrow> [] | Some g \<Rightarrow> reference g)"

definition GenericAccountID_Address :: "GenericAccountID option \<Rightarrow> string" where
  "GenericAccountID_Address a = (case a of None \<Rightarrow> [] | Some g \<Rightarrow> address g)"

definition GenericAccountID_ChainID :: "GenericAccountID option \<Rightarrow> ChainID" where
  "GenericAccountID_ChainID a =
     (case a of
        None \<Rightarrow> \<lparr>Namespace = [], Reference = []\<rparr>
      | Some g \<Rightarrow> \<lparr>Namespace = GenericAccountID_Namespace a,
                   Reference = GenericAccountID_Reference a\<rparr>)"

definition GenericAccountID_IsZero :: "GenericAccountID option \<Rightarrow> bool" where
  "GenericAccountID_IsZero a =
     (case a of
        None \<Rightarrow> True
      | Some g \<Rightarrow> namespace g = [] \<and> reference g = [] \<and> address g = [])"

text \<open>
  \<^verbatim>\<open>String\<close> reads the fields only after \<^verbatim>\<open>IsZero\<close> has excluded the nil receiver.
\<close>

definition GenericAccountID_String :: "GenericAccountID option \<Rightarrow> string" where
  "GenericAccountID_String a =
     (if GenericAccountID_IsZero a then []
      else (case a of
              None \<Rightarrow> []
            | Some g \<Rightarrow> namespace g @ '':'' @ reference g @ '':'' @ address g))"

subsection \<open>ChainID\<close>

definition solanaReferenceRegex :: "string \<Rightarrow> bool" where
  "solanaReferenceRegex s = class_rep base58_char 32 32 s"

definition bip122ReferenceRegex :: "string \<Rightarrow> bool" where
  "bip122ReferenceRegex s = class_rep hex_lower_char 32 32 s"

text \<open>An \<^verbatim>\<open>error\<close> result is an optional error, \<open>None\<close> for nil.\<close>

definition validateReference :: "string \<Rightarrow> string \<Rightarrow> error option" where
  "validateReference ns ref =
     (if ns = NamespaceEIP155 then
        (case ParseUint64 ref of None \<Rightarrow> Some ErrInvalidReference | Some _ \<Rightarrow> None)
      else if ns = NamespaceSolana then
        (if \<not> solanaReferenceRegex ref then Some ErrInvalidReference else None)
      else if ns = NamespaceBIP122 then
        (if \<not> bip122ReferenceRegex ref then Some ErrInvalidReference else None)
      else Some ErrInvalidNamespace)"

definition ParseChainID :: "string \<Rightarrow> error + ChainID" where
  "ParseChainID s =
     (case strings_Split s of
        [ns, ref] \<Rightarrow>
          (case validateReference ns ref of
             Some e \<Rightarrow> Inl e
           | None \<Rightarrow> Inr \<lparr>Namespace = ns, Reference = ref\<rparr>)
      | _ \<Rightarrow> Inl ErrInvalidFormat)"

definition ChainID_IsZero :: "ChainID \<Rightarrow> bool" where
  "ChainID_IsZero c = (Namespace c = [] \<and> Reference c = [])"

definition ChainID_Validate :: "ChainID \<Rightarrow> error option" where
  "ChainID_Validate c =
     (if ChainID_IsZero c then Some ErrEmptyValue
      else validateReference (Namespace c) (Reference c))"

definition ChainID_String :: "ChainID \<Rightarrow> string" where
  "ChainID_String c =
     (if ChainID_IsZero c then [] else Namespace c @ '':'' @ Reference c)"

subsection \<open>EIP-155\<close>

text \<open>
  The type set of the constraint \<^verbatim>\<open>eip155ChainID\<close>: a \<^verbatim>\<open>*big.Int\<close>, a
  \<^verbatim>\<open>*uint256.Int\<close>, or a machine integer (\<^verbatim>\<open>int\<close> and \<^verbatim>\<open>uint\<close> have 64 bits).
\<close>

datatype eip155ChainID =
    BigInt "int option"
  | Uint256 "256 word option"
  | GoInt "64 word"
  | GoInt8 "8 word"
  | GoInt16 "16 word"
  | GoInt32 "32 word"
  | GoInt64 "64 word"
  | GoUint "64 word"
  | GoUint8 "8 word"
  | GoUint16 "16 word"
  | GoUint32 "32 word"
  | GoUint64 "64 word"

text \<open>
  The result is a \<^verbatim>\<open>*big.Int\<close>, nil where the argument is a nil pointer
  (\<^verbatim>\<open>(*uint256.Int)(nil).ToBig()\<close> is nil).
\<close>

fun bigIntOrIntToBigInt :: "eip155ChainID \<Rightarrow> int option" where
  "bigIntOrIntToBigInt (BigInt v) = v"
| "bigIntOrIntToBigInt (Uint256 v) = map_option uint v"
| "bigIntOrIntToBigInt (GoUint v) = Some (uint v)"
| "bigIntOrIntToBigInt (GoUint8 v) = Some (uint v)"
| "bigIntOrIntToBigInt (GoUint16 v) = Some (uint v)"
| "bigIntOrIntToBigInt (GoUint32 v) = Some (uint v)"
| "bigIntOrIntToBigInt (GoUint64 v) = Some (uint v)"
| "bigIntOrIntToBigInt (GoInt v) = Some (sint v)"
| "bigIntOrIntToBigInt (GoInt8 v) = Some (sint v)"
| "bigIntOrIntToBigInt (GoInt16 v) = Some (sint v)"
| "bigIntOrIntToBigInt (GoInt32 v) = Some (sint v)"
| "bigIntOrIntToBigInt (GoInt64 v) = Some (sint v)"

definition maxEIP155ChainID :: int where
  "maxEIP155ChainID = 10 ^ 32 - 1"

text \<open>
  \<^verbatim>\<open>NewEIP155\<close>. \<^verbatim>\<open>_chainID.Cmp\<close> on a nil \<^verbatim>\<open>*big.Int\<close> panics; every other
  argument gives an identifier.
\<close>

definition NewEIP155 ::
  "('addr, 'pk) ext \<Rightarrow> eip155ChainID \<Rightarrow> 'addr \<Rightarrow> error + 'addr eip155AccountID" where
  "NewEIP155 X c addr =
     (case bigIntOrIntToBigInt c of
        None \<Rightarrow> Inl PanicNilDereference
      | Some n \<Rightarrow>
          let n' = (if n > maxEIP155ChainID then maxEIP155ChainID else n) in
          Inr \<lparr>eip155_base = newGenericUnchecked NamespaceEIP155 (big_String n') (Hex X addr),
               ethAddr = addr,
               chainID = Some n'\<rparr>)"

definition NewEIP155FromHex ::
  "('addr, 'pk) ext \<Rightarrow> eip155ChainID \<Rightarrow> string \<Rightarrow> error + 'addr eip155AccountID" where
  "NewEIP155FromHex X c hexAddress = NewEIP155 X c (HexToAddress X hexAddress)"

definition newEIP155FromReference ::
  "('addr, 'pk) ext \<Rightarrow> string \<Rightarrow> string \<Rightarrow> error + 'addr eip155AccountID" where
  "newEIP155FromReference X ref hexAddress =
     (case big_SetString ref of
        None \<Rightarrow> Inl ErrInvalidReference
      | Some n \<Rightarrow> NewEIP155FromHex X (BigInt (Some n)) hexAddress)"

definition EIP155ChainID :: "'addr eip155AccountID option \<Rightarrow> int option" where
  "EIP155ChainID a = (case a of None \<Rightarrow> None | Some r \<Rightarrow> chainID r)"

definition eip155AccountID_IsZero :: "'addr eip155AccountID option \<Rightarrow> bool" where
  "eip155AccountID_IsZero a =
     (case a of
        None \<Rightarrow> True
      | Some r \<Rightarrow> eip155_base r = None \<or> GenericAccountID_IsZero (eip155_base r))"

subsection \<open>Solana\<close>

definition SolanaNetwork_String :: "string \<Rightarrow> string" where
  "SolanaNetwork_String n = (if length n > 32 then take 32 n else n)"

definition SolanaAddressLength :: nat where
  "SolanaAddressLength = 32"

definition solanaAddressRegex :: "string \<Rightarrow> bool" where
  "solanaAddressRegex s = class_rep base58_char 32 44 s"

definition NewSolana :: "('addr, 'pk) ext \<Rightarrow> string \<Rightarrow> 'pk \<Rightarrow> 'pk solanaAccountID" where
  "NewSolana X net addr =
     \<lparr>solana_base =
        newGenericUnchecked NamespaceSolana (SolanaNetwork_String net) (PublicKey_String X addr),
      pubkey = addr\<rparr>"

definition NewSolanaFromBase58 ::
  "('addr, 'pk) ext \<Rightarrow> string \<Rightarrow> string \<Rightarrow> error + 'pk solanaAccountID" where
  "NewSolanaFromBase58 X net base58Address =
     (if \<not> solanaAddressRegex base58Address then Inl ErrInvalidAddress
      else
        (case NewPublicKey X base58Address of
           None \<Rightarrow> Inl ErrInvalidAddress
         | Some addr \<Rightarrow>
             if length (PublicKey_Bytes X addr) \<noteq> SolanaAddressLength then Inl ErrInvalidAddress
             else Inr (NewSolana X net addr)))"

definition solanaAccountID_IsZero :: "'pk solanaAccountID option \<Rightarrow> bool" where
  "solanaAccountID_IsZero a =
     (case a of
        None \<Rightarrow> True
      | Some r \<Rightarrow> solana_base r = None \<or> GenericAccountID_IsZero (solana_base r))"

subsection \<open>BIP-122\<close>

abbreviation BitcoinMainnet :: string where
  "BitcoinMainnet \<equiv> ''000000000019d6689c085ae165831e93''"
abbreviation BitcoinTestnet :: string where
  "BitcoinTestnet \<equiv> ''000000000933ea01ad0ee984209779ba''"
abbreviation BitcoinCashMainnet :: string where
  "BitcoinCashMainnet \<equiv> ''000000000000000000651ef99cb9fcbe''"
abbreviation LitecoinMainnet :: string where
  "LitecoinMainnet \<equiv> ''12a765e31ffd4059bada1e25190f6e98''"
abbreviation LitecoinTestnet :: string where
  "LitecoinTestnet \<equiv> ''4966625a4b2851d9fdee139e56211a0d''"
abbreviation DogecoinMainnet :: string where
  "DogecoinMainnet \<equiv> ''1a91e3dace36e2be3bf030a65679fe82''"
abbreviation DogecoinTestnet :: string where
  "DogecoinTestnet \<equiv> ''bb0a78264637406b6360aad926284d54''"
abbreviation DashMainnet :: string where
  "DashMainnet \<equiv> ''00000ffd590b1485b3caadc19b22e637''"

definition BIP122Network_String :: "string \<Rightarrow> string" where
  "BIP122Network_String n = (if length n > 32 then take 32 n else n)"

text \<open>
  The address patterns. \<open>prefixed p P lo hi\<close> is the pattern \<^verbatim>\<open>p[P]{lo,hi}\<close> for a
  literal \<open>p\<close>, and \<open>headed H P lo hi\<close> the pattern \<^verbatim>\<open>[H][P]{lo,hi}\<close>; every pattern
  of the file is anchored at both ends.
\<close>

definition prefixed :: "string \<Rightarrow> (char \<Rightarrow> bool) \<Rightarrow> nat \<Rightarrow> nat \<Rightarrow> string \<Rightarrow> bool" where
  "prefixed p P lo hi s = (take (length p) s = p \<and> class_rep P lo hi (drop (length p) s))"

definition headed :: "string \<Rightarrow> (char \<Rightarrow> bool) \<Rightarrow> nat \<Rightarrow> nat \<Rightarrow> string \<Rightarrow> bool" where
  "headed H P lo hi s =
     (case s of [] \<Rightarrow> False | c # r \<Rightarrow> c \<in> set H \<and> class_rep P lo hi r)"

definition bitcoinMainnetAddressRegex :: "string \<Rightarrow> bool" where
  "bitcoinMainnetAddressRegex s =
     (prefixed ''bc1'' bech32_char 39 59 s \<or> prefixed ''3'' base58_char 25 34 s)"

definition bitcoinTestnetAddressRegex :: "string \<Rightarrow> bool" where
  "bitcoinTestnetAddressRegex s =
     (prefixed ''tb1'' bech32_char 39 59 s \<or> prefixed ''2'' base58_char 25 34 s)"

definition bitcoinCashMainnetAddressRegex :: "string \<Rightarrow> bool" where
  "bitcoinCashMainnetAddressRegex s =
     (headed ''qp'' bech32_char 41 41 s \<or>
      (take 12 s = ''bitcoincash:'' \<and> headed ''qp'' bech32_char 41 41 (drop 12 s)) \<or>
      headed ''13'' base58_char 25 34 s)"

definition litecoinMainnetAddressRegex :: "string \<Rightarrow> bool" where
  "litecoinMainnetAddressRegex s =
     (prefixed ''ltc1'' bech32_char 39 59 s \<or> headed ''M3'' base58_char 25 34 s)"

definition litecoinTestnetAddressRegex :: "string \<Rightarrow> bool" where
  "litecoinTestnetAddressRegex s =
     (prefixed ''tltc1'' bech32_char 39 59 s \<or> headed ''mn2'' base58_char 25 34 s)"

definition dogecoinMainnetAddressRegex :: "string \<Rightarrow> bool" where
  "dogecoinMainnetAddressRegex s = headed ''D9A'' base58_char 25 34 s"

definition dogecoinTestnetAddressRegex :: "string \<Rightarrow> bool" where
  "dogecoinTestnetAddressRegex s = headed ''nm'' base58_char 25 34 s"

definition dashMainnetAddressRegex :: "string \<Rightarrow> bool" where
  "dashMainnetAddressRegex s = headed ''X7'' base58_char 25 34 s"

text \<open>
  \<^verbatim>\<open>^([a-km-zA-HJ-NP-Z1-9]{25,35}|[a-z]{1,12}:?[qpzry9x8gf2tvdw0s3jn54khce6mua7l]{39,64})$\<close>:
  in the second alternative the lower-case prefix has some length \<open>k\<close> from 1 to 12.
\<close>

definition genericBIP122AddressRegex :: "string \<Rightarrow> bool" where
  "genericBIP122AddressRegex s =
     (class_rep base58_char 25 35 s \<or>
      list_ex
        (\<lambda>k. class_rep (in_range CHR ''a'' CHR ''z'') k k (take k s) \<and>
             (class_rep bech32_char 39 64 (drop k s) \<or>
              prefixed '':'' bech32_char 39 64 (drop k s)))
        [1..<13])"

definition ValidateBIP122Address :: "string \<Rightarrow> string \<Rightarrow> error option" where
  "ValidateBIP122Address net addr =
     (if length addr = 0 then Some ErrInvalidAddress
      else
        let regex =
          (if net = BitcoinMainnet then bitcoinMainnetAddressRegex
           else if net = BitcoinTestnet then bitcoinTestnetAddressRegex
           else if net = BitcoinCashMainnet then bitcoinCashMainnetAddressRegex
           else if net = LitecoinMainnet then litecoinMainnetAddressRegex
           else if net = LitecoinTestnet then litecoinTestnetAddressRegex
           else if net = DogecoinMainnet then dogecoinMainnetAddressRegex
           else if net = DogecoinTestnet then dogecoinTestnetAddressRegex
           else if net = DashMainnet then dashMainnetAddressRegex
           else genericBIP122AddressRegex)
        in if \<not> regex addr then Some ErrInvalidAddress else None)"

definition NewBIP122 :: "string \<Rightarrow> string \<Rightarrow> bip122AccountID" where
  "NewBIP122 net addr =
     \<lparr>bip122_base = newGenericUnchecked NamespaceBIP122 (BIP122Network_String net) addr,
      network = net\<rparr>"

definition NewBIP122WithValidation :: "string \<Rightarrow> string \<Rightarrow> error + bip122AccountID" where
  "NewBIP122WithValidation net addr =
     (case ValidateBIP122Address net addr of
        Some e \<Rightarrow> Inl e
      | None \<Rightarrow> Inr (NewBIP122 net addr))"

definition bip122AccountID_IsZero :: "bip122AccountID option \<Rightarrow> bool" where
  "bip122AccountID_IsZero a =
     (case a of
        None \<Rightarrow> True
      | Some r \<Rightarrow> bip122_base r = None \<or> GenericAccountID_IsZero (bip122_base r))"

subsection \<open>Validation of the generic identifier\<close>

definition Validate :: "('addr, 'pk) ext \<Rightarrow> GenericAccountID option \<Rightarrow> error option" where
  "Validate X a =
     (case a of
        None \<Rightarrow> Some ErrEmptyValue
      | Some g \<Rightarrow>
          if \<not> NamespaceRegex (namespace g) then Some ErrInvalidNamespace
          else if namespace g = NamespaceEIP155 then
            (case newEIP155FromReference X (reference g) (address g) of
               Inl e \<Rightarrow> Some e | Inr _ \<Rightarrow> None)
          else if namespace g = NamespaceSolana then
            (case NewSolanaFromBase58 X (reference g) (address g) of
               Inl e \<Rightarrow> Some e | Inr _ \<Rightarrow> None)
          else if namespace g = NamespaceBIP122 then
            (case NewBIP122WithValidation (reference g) (address g) of
               Inl e \<Rightarrow> Some e | Inr _ \<Rightarrow> None)
          else if \<not> ReferenceRegex (reference g) then Some ErrInvalidReference
          else if \<not> AddressRegex (address g) then Some ErrInvalidAddress
          else None)"

text \<open>\<^verbatim>\<open>NewGeneric\<close> returns a non-nil pointer, here its target, or an error.\<close>

definition NewGeneric ::
  "('addr, 'pk) ext \<Rightarrow> string \<Rightarrow> string \<Rightarrow> string \<Rightarrow> error + GenericAccountID" where
  "NewGeneric X ns ref addr =
     (let a = \<lparr>namespace = ns, reference = ref, address = addr\<rparr> in
      case Validate X (Some a) of
        Some e \<Rightarrow> Inl e
      | None \<Rightarrow> Inr a)"

subsection \<open>The methods of the interface\<close>

text \<open>
  A variant has the accessors and the codec of its embedded \<^verbatim>\<open>*GenericAccountID\<close>
  by promotion: the call goes through the variant's pointer to the embedded pointer,
  and panics when the variant's pointer is nil. \<^verbatim>\<open>IsZero\<close> and \<^verbatim>\<open>Equal\<close> are the
  variant's own.
\<close>

fun embedded :: "('addr, 'pk) AccountID \<Rightarrow> error + GenericAccountID option" where
  "embedded (Generic a) = Inr a"
| "embedded (EIP155 None) = Inl PanicNilDereference"
| "embedded (EIP155 (Some r)) = Inr (eip155_base r)"
| "embedded (Solana None) = Inl PanicNilDereference"
| "embedded (Solana (Some r)) = Inr (solana_base r)"
| "embedded (BIP122 None) = Inl PanicNilDereference"
| "embedded (BIP122 (Some r)) = Inr (bip122_base r)"

definition AccountID_Namespace :: "('addr, 'pk) AccountID \<Rightarrow> error + string" where
  "AccountID_Namespace a = map_sum id GenericAccountID_Namespace (embedded a)"

definition AccountID_Reference :: "('addr, 'pk) AccountID \<Rightarrow> error + string" where
  "AccountID_Reference a = map_sum id GenericAccountID_Reference (embedded a)"

definition AccountID_Address :: "('addr, 'pk) AccountID \<Rightarrow> error + string" where
  "AccountID_Address a = map_sum id GenericAccountID_Address (embedded a)"

definition AccountID_ChainID :: "('addr, 'pk) AccountID \<Rightarrow> error + ChainID" where
  "AccountID_ChainID a = map_sum id GenericAccountID_ChainID (embedded a)"

definition AccountID_String :: "('addr, 'pk) AccountID \<Rightarrow> error + string" where
  "AccountID_String a = map_sum id GenericAccountID_String (embedded a)"

fun AccountID_IsZero :: "('addr, 'pk) AccountID \<Rightarrow> bool" where
  "AccountID_IsZero (Generic a) = GenericAccountID_IsZero a"
| "AccountID_IsZero (EIP155 a) = eip155AccountID_IsZero a"
| "AccountID_IsZero (Solana a) = solanaAccountID_IsZero a"
| "AccountID_IsZero (BIP122 a) = bip122AccountID_IsZero a"

text \<open>The condition \<^verbatim>\<open>other == nil || other.IsZero()\<close> on an interface value.\<close>

definition nil_or_zero :: "('addr, 'pk) AccountID option \<Rightarrow> bool" where
  "nil_or_zero other = (case other of None \<Rightarrow> True | Some b \<Rightarrow> AccountID_IsZero b)"

text \<open>
  \<^verbatim>\<open>GenericAccountID.Equal\<close>. The fields of the receiver and the accessors of the
  other side are read after both zero tests; \<^verbatim>\<open>&&\<close> stops at the first difference.
\<close>

definition GenericAccountID_Equal ::
  "GenericAccountID option \<Rightarrow> ('addr, 'pk) AccountID option \<Rightarrow> error + bool" where
  "GenericAccountID_Equal a other =
     (if GenericAccountID_IsZero a \<and> nil_or_zero other then Inr True
      else if GenericAccountID_IsZero a \<or> nil_or_zero other then Inr False
      else
        (case (a, other) of
           (Some g, Some b) \<Rightarrow>
             (case AccountID_Namespace b of
                Inl e \<Rightarrow> Inl e
              | Inr ns \<Rightarrow>
                  if namespace g \<noteq> ns then Inr False
                  else
                    (case AccountID_Reference b of
                       Inl e \<Rightarrow> Inl e
                     | Inr ref \<Rightarrow>
                         if reference g \<noteq> ref then Inr False
                         else
                           (case AccountID_Address b of
                              Inl e \<Rightarrow> Inl e
                            | Inr addr \<Rightarrow> Inr (address g = addr))))
         | _ \<Rightarrow> Inl PanicNilDereference))"

definition eip155AccountID_Equal ::
  "'addr eip155AccountID option \<Rightarrow> ('addr, 'pk) AccountID option \<Rightarrow> error + bool" where
  "eip155AccountID_Equal a other =
     (if eip155AccountID_IsZero a \<and> nil_or_zero other then Inr True
      else if eip155AccountID_IsZero a \<or> nil_or_zero other then Inr False
      else
        (case a of
           None \<Rightarrow> Inl PanicNilDereference
         | Some r \<Rightarrow> GenericAccountID_Equal (eip155_base r) other))"

definition solanaAccountID_Equal ::
  "'pk solanaAccountID option \<Rightarrow> ('addr, 'pk) AccountID option \<Rightarrow> error + bool" where
  "solanaAccountID_Equal a other =
     (if solanaAccountID_IsZero a \<and> nil_or_zero other then Inr True
      else if solanaAccountID_IsZero a \<or> nil_or_zero other then Inr False
      else
        (case a of
           None \<Rightarrow> Inl PanicNilDereference
         | Some r \<Rightarrow> GenericAccountID_Equal (solana_base r) other))"

definition bip122AccountID_Equal ::
  "bip122AccountID option \<Rightarrow> ('addr, 'pk) AccountID option \<Rightarrow> error + bool" where
  "bip122AccountID_Equal a other =
     (if bip122AccountID_IsZero a \<and> nil_or_zero other then Inr True
      else if bip122AccountID_IsZero a \<or> nil_or_zero other then Inr False
      else
        (case a of
           None \<Rightarrow> Inl PanicNilDereference
         | Some r \<Rightarrow> GenericAccountID_Equal (bip122_base r) other))"

fun AccountID_Equal ::
  "('addr, 'pk) AccountID \<Rightarrow> ('addr, 'pk) AccountID option \<Rightarrow> error + bool" where
  "AccountID_Equal (Generic a) other = GenericAccountID_Equal a other"
| "AccountID_Equal (EIP155 a) other = eip155AccountID_Equal a other"
| "AccountID_Equal (Solana a) other = solanaAccountID_Equal a other"
| "AccountID_Equal (BIP122 a) other = bip122AccountID_Equal a other"

subsection \<open>The codecs of the generic identifier\<close>

text \<open>
  A decoder writes its result through the receiver with \<^verbatim>\<open>*a = ...\<close>, after every
  check: on a nil receiver the assignment panics. A decoder of the model takes the
  receiver and returns the error, or the new value of \<^verbatim>\<open>*a\<close>.
\<close>

definition assign :: "GenericAccountID option \<Rightarrow> GenericAccountID \<Rightarrow> error + GenericAccountID" where
  "assign a v = (case a of None \<Rightarrow> Inl PanicNilDereference | Some _ \<Rightarrow> Inr v)"

definition zero_GenericAccountID :: GenericAccountID where
  "zero_GenericAccountID = \<lparr>namespace = [], reference = [], address = []\<rparr>"

definition MarshalText :: "GenericAccountID option \<Rightarrow> bytes" where
  "MarshalText a = GenericAccountID_String a"

definition UnmarshalText ::
  "('addr, 'pk) ext \<Rightarrow> GenericAccountID option \<Rightarrow> bytes \<Rightarrow> error + GenericAccountID" where
  "UnmarshalText X a text =
     (case SplitCAIP10 text of
        Inl e \<Rightarrow> Inl e
      | Inr (ns, ref, addr) \<Rightarrow>
          (case NewGeneric X ns ref addr of
             Inl e \<Rightarrow> Inl e
           | Inr parsed \<Rightarrow> assign a parsed))"

text \<open>
  The conversions \<^verbatim>\<open>byte(n)\<close> and \<^verbatim>\<open>uint16(n)\<close> of a length keep its low 8 and 16
  bits; \<^verbatim>\<open>int(b)\<close> is the value of a byte.
\<close>

definition byte :: "nat \<Rightarrow> char" where
  "byte n = char_of (n mod 256)"

definition uint16 :: "nat \<Rightarrow> nat" where
  "uint16 n = n mod 65536"

text \<open>\<^verbatim>\<open>binary.BigEndian.PutUint16(buf[off:off+2], v)\<close> and \<^verbatim>\<open>binary.BigEndian.Uint16\<close>.\<close>

definition PutUint16 :: "bytes \<Rightarrow> nat \<Rightarrow> nat \<Rightarrow> bytes" where
  "PutUint16 buf off v = (buf[off := byte (v div 256)])[off + 1 := byte v]"

definition Uint16 :: "bytes \<Rightarrow> nat" where
  "Uint16 b = of_char (b ! 0) * 256 + of_char (b ! 1)"

text \<open>
  \<^verbatim>\<open>copy(buf[off:], src)\<close> with \<open>off \<le> len(buf)\<close>: as many bytes of \<open>src\<close> as fit
  replace the bytes of \<open>buf\<close> from \<open>off\<close> on.
\<close>

definition copy_at :: "bytes \<Rightarrow> nat \<Rightarrow> bytes \<Rightarrow> bytes" where
  "copy_at buf off src =
     take off buf @ take (length buf - off) src @ drop (off + length src) buf"

definition MarshalBinary :: "GenericAccountID option \<Rightarrow> bytes" where
  "MarshalBinary a =
     (case a of
        None \<Rightarrow> [byte 0, byte 0, byte 0, byte 0]
      | Some g \<Rightarrow>
          let nsLen = length (namespace g);
              refLen = length (reference g);
              addrLen = length (address g);
              buf = replicate (4 + nsLen + refLen + addrLen) (byte 0);
              buf = buf[0 := byte nsLen];
              buf = buf[1 := byte refLen];
              buf = PutUint16 buf 2 (uint16 addrLen);
              offset = 4;
              buf = copy_at buf offset (namespace g);
              offset = offset + nsLen;
              buf = copy_at buf offset (reference g);
              offset = offset + refLen;
              buf = copy_at buf offset (address g)
          in buf)"

definition UnmarshalBinary ::
  "('addr, 'pk) ext \<Rightarrow> GenericAccountID option \<Rightarrow> bytes \<Rightarrow> error + GenericAccountID" where
  "UnmarshalBinary X a data =
     (if length data < 4 then Inl ErrInvalidFormat
      else
        let nsLen = (of_char (data ! 0) :: nat);
            refLen = (of_char (data ! 1) :: nat);
            addrLen = Uint16 (subslice data 2 4);
            expectedLen = 4 + nsLen + refLen + addrLen
        in
          if length data \<noteq> expectedLen then Inl ErrInvalidFormat
          else
            let offset = 4;
                ns = subslice data offset (offset + nsLen);
                offset = offset + nsLen;
                ref = subslice data offset (offset + refLen);
                offset = offset + refLen;
                addr = subslice data offset (offset + addrLen)
            in (case NewGeneric X ns ref addr of
                  Inl e \<Rightarrow> Inl e
                | Inr parsed \<Rightarrow> assign a parsed))"

definition quote :: char where
  "quote = CHR 0x22"

definition MarshalJSON :: "GenericAccountID option \<Rightarrow> bytes" where
  "MarshalJSON a =
     (if GenericAccountID_IsZero a then [quote, quote]
      else [quote] @ GenericAccountID_String a @ [quote])"

definition UnmarshalJSON ::
  "('addr, 'pk) ext \<Rightarrow> GenericAccountID option \<Rightarrow> bytes \<Rightarrow> error + GenericAccountID" where
  "UnmarshalJSON X a data =
     (if data = ''null'' then assign a zero_GenericAccountID
      else if length data < 2 \<or> data ! 0 \<noteq> quote \<or> data ! (length data - 1) \<noteq> quote
      then Inl ErrInvalidFormat
      else
        let s = subslice data 1 (length data - 1) in
        if s = [] then assign a zero_GenericAccountID
        else UnmarshalText X a s)"

text \<open>
  A \<^verbatim>\<open>driver.Value\<close> produced by \<^verbatim>\<open>Value\<close> is nil or a string. The argument of
  \<^verbatim>\<open>Scan\<close> is any value: nil, a string, a byte slice, or a value of another type.
\<close>

datatype scan_src = SrcNil | SrcString string | SrcBytes bytes | SrcOther

definition Value :: "GenericAccountID option \<Rightarrow> string option" where
  "Value a = (if GenericAccountID_IsZero a then None else Some (GenericAccountID_String a))"

fun src_of_value :: "string option \<Rightarrow> scan_src" where
  "src_of_value None = SrcNil"
| "src_of_value (Some s) = SrcString s"

fun Scan ::
  "('addr, 'pk) ext \<Rightarrow> GenericAccountID option \<Rightarrow> scan_src \<Rightarrow> error + GenericAccountID" where
  "Scan X a SrcNil = assign a zero_GenericAccountID"
| "Scan X a (SrcString v) =
     (if v = [] then assign a zero_GenericAccountID else UnmarshalText X a v)"
| "Scan X a (SrcBytes v) =
     (if length v = 0 then assign a zero_GenericAccountID else UnmarshalText X a v)"
| "Scan X a SrcOther = Inl ErrScanType"

subsection \<open>The parser registry\<close>

record ('addr, 'pk) Parser =
  Parser_Namespace :: string
  Parser_Parse :: "string \<Rightarrow> error + ('addr, 'pk) AccountID"
  Parser_ParseAddress :: "string \<Rightarrow> string \<Rightarrow> error + ('addr, 'pk) AccountID"

type_synonym ('addr, 'pk) registry = "string \<rightharpoonup> ('addr, 'pk) Parser"

definition RegisterParser ::
  "('addr, 'pk) Parser \<Rightarrow> ('addr, 'pk) registry \<Rightarrow> ('addr, 'pk) registry" where
  "RegisterParser p reg = reg(Parser_Namespace p \<mapsto> p)"

definition as_Generic :: "error + GenericAccountID \<Rightarrow> error + ('addr, 'pk) AccountID" where
  "as_Generic r = map_sum id (\<lambda>g. Generic (Some g)) r"

definition as_EIP155 :: "error + 'addr eip155AccountID \<Rightarrow> error + ('addr, 'pk) AccountID" where
  "as_EIP155 r = map_sum id (\<lambda>v. EIP155 (Some v)) r"

definition as_Solana :: "error + 'pk solanaAccountID \<Rightarrow> error + ('addr, 'pk) AccountID" where
  "as_Solana r = map_sum id (\<lambda>v. Solana (Some v)) r"

definition GenericParser :: "('addr, 'pk) ext \<Rightarrow> string \<Rightarrow> ('addr, 'pk) Parser" where
  "GenericParser X ns =
     \<lparr>Parser_Namespace = ns,
      Parser_Parse = (\<lambda>s.
        case SplitCAIP10 s of
          Inl e \<Rightarrow> Inl e
        | Inr (ns', ref, addr) \<Rightarrow>
            if ns' \<noteq> ns then Inl ErrInvalidNamespace
            else as_Generic (NewGeneric X ns' ref addr)),
      Parser_ParseAddress = (\<lambda>ref addr. as_Generic (NewGeneric X ns ref addr))\<rparr>"

definition eip155Parser :: "('addr, 'pk) ext \<Rightarrow> ('addr, 'pk) Parser" where
  "eip155Parser X =
     \<lparr>Parser_Namespace = NamespaceEIP155,
      Parser_Parse = (\<lambda>s.
        case SplitCAIP10 s of
          Inl e \<Rightarrow> Inl e
        | Inr (ns, ref, addr) \<Rightarrow>
            if ns \<noteq> NamespaceEIP155 then Inl ErrInvalidNamespace
            else as_EIP155 (newEIP155FromReference X ref addr)),
      Parser_ParseAddress = (\<lambda>ref addr. as_EIP155 (newEIP155FromReference X ref addr))\<rparr>"

definition solanaParser :: "('addr, 'pk) ext \<Rightarrow> ('addr, 'pk) Parser" where
  "solanaParser X =
     \<lparr>Parser_Namespace = NamespaceSolana,
      Parser_Parse = (\<lambda>s.
        case SplitCAIP10 s of
          Inl e \<Rightarrow> Inl e
        | Inr (ns, ref, addr) \<Rightarrow>
            if ns \<noteq> NamespaceSolana then Inl ErrInvalidNamespace
            else as_Solana (NewSolanaFromBase58 X ref addr)),
      Parser_ParseAddress = (\<lambda>ref addr. as_Solana (NewSolanaFromBase58 X ref addr))\<rparr>"

definition bip122Parser :: "('addr, 'pk) Parser" where
  "bip122Parser =
     \<lparr>Parser_Namespace = NamespaceBIP122,
      Parser_Parse = (\<lambda>s.
        case SplitCAIP10 s of
          Inl e \<Rightarrow> Inl e
        | Inr (ns, ref, addr) \<Rightarrow>
            if ns \<noteq> NamespaceBIP122 then Inl ErrInvalidNamespace
            else Inr (BIP122 (Some (NewBIP122 ref addr)))),
      Parser_ParseAddress = (\<lambda>ref addr. Inr (BIP122 (Some (NewBIP122 ref addr))))\<rparr>"

text \<open>The registry after the three \<^verbatim>\<open>init\<close> functions of the package.\<close>

definition init_registry :: "('addr, 'pk) ext \<Rightarrow> ('addr, 'pk) registry" where
  "init_registry X =
     RegisterParser (solanaParser X)
       (RegisterParser (eip155Parser X)
         (RegisterParser bip122Parser Map.empty))"

definition Parse ::
  "('addr, 'pk) ext \<Rightarrow> ('addr, 'pk) registry \<Rightarrow> string \<Rightarrow> error + ('addr, 'pk) AccountID" where
  "Parse X reg s =
     (case SplitCAIP10 s of
        Inl e \<Rightarrow> Inl e
      | Inr (ns, ref, addr) \<Rightarrow>
          (case reg ns of
             Some p \<Rightarrow> Parser_ParseAddress p ref addr
           | None \<Rightarrow> as_Generic (NewGeneric X ns ref addr)))"

text \<open>
  A sample implementation of the external collaborators, to run the model on concrete
  inputs: an address is kept as its hex text and a public key as its base58 text, with
  32 bytes.
\<close>

definition sample_ext :: "(string, string) ext" where
  "sample_ext =
     \<lparr>Hex = (\<lambda>a. a),
      HexToAddress = (\<lambda>s. s),
      NewPublicKey = (\<lambda>s. Some s),
      PublicKey_Bytes = (\<lambda>k. replicate 32 (CHR 0x00)),
      PublicKey_String = (\<lambda>k. k)\<rparr>"

text \<open>
  The words of the specification of splitting: the text before the first colon of a
  string, and the remainder after that colon.
\<close>

definition before_colon :: "string \<Rightarrow> string" where
  "before_colon s = takeWhile (\<lambda>c. c \<noteq> CHR '':'') s"

definition after_colon :: "string \<Rightarrow> string" where
  "after_colon s = tl (dropWhile (\<lambda>c. c \<noteq> CHR '':'') s)"

definition colons :: "string \<Rightarrow> nat" where
  "colons s = count_list s CHR '':''"

text \<open>
  The CAIP-2 prefix of a CAIP-10 string: its namespace and reference, joined by a colon.
\<close>

definition caip2_prefix :: "string \<Rightarrow> string option" where
  "caip2_prefix s =
     (case SplitCAIP10 s of
        Inl _ \<Rightarrow> None
      | Inr (ns, ref, addr) \<Rightarrow> Some (ns @ '':'' @ ref))"

text \<open>
  The identifier that stores the chain id \<open>n\<close> for an address: \<open>n\<close> itself behind the
  chain-id accessor, its decimal form as the reference, and the hex form of the
  address.
\<close>

definition eip155_identifier :: "('addr, 'pk) ext \<Rightarrow> int \<Rightarrow> 'addr \<Rightarrow> 'addr eip155AccountID" where
  "eip155_identifier X n addr =
     \<lparr>eip155_base = Some \<lparr>namespace = ''eip155'', reference = big_String n, address = Hex X addr\<rparr>,
      ethAddr = addr,
      chainID = Some n\<rparr>"

section \<open>Properties of splitting\<close>

lemma scan_colon_takeWhile:
  "i \<le> length s \<Longrightarrow>
   scan_colon s i = i + length (takeWhile (\<lambda>c. c \<noteq> CHR '':'') (drop i s))"
proof (induction s i rule: scan_colon.induct)
  case (1 s i)
  show ?case
  proof (cases "i < length s")
    case True
    then have d: "drop i s = s ! i # drop (Suc i) s"
      by (simp add: Cons_nth_drop_Suc)
    show ?thesis
    proof (cases "s ! i = CHR '':''")
      case True
      with d show ?thesis by (simp add: scan_colon.simps [of s i])
    next
      case False
      with \<open>i < length s\<close> have "scan_colon s i = scan_colon s (Suc i)"
        by (simp add: scan_colon.simps [of s i])
      moreover from False \<open>i < length s\<close> "1.IH"
      have "scan_colon s (Suc i) =
            Suc i + length (takeWhile (\<lambda>c. c \<noteq> CHR '':'') (drop (Suc i) s))"
        by simp
      ultimately show ?thesis using d False by simp
    qed
  next
    case False
    with "1.prems" have "i = length s" by simp
    then show ?thesis by (simp add: scan_colon.simps [of s "length s"])
  qed
qed

lemma colons_zero: "colons s = 0 \<longleftrightarrow> CHR '':'' \<notin> set s"
  by (induction s) (auto simp: colons_def)

lemma before_colon_length: "length (before_colon s) \<le> length s"
  by (simp add: before_colon_def length_takeWhile_le)

lemma before_colon_full: "length (before_colon s) = length s \<longleftrightarrow> CHR '':'' \<notin> set s"
  by (induction s) (auto simp: before_colon_def)

lemma split_first_colon:
  assumes "CHR '':'' \<in> set s"
  shows "s = before_colon s @ CHR '':'' # after_colon s"
    and "take (length (before_colon s)) s = before_colon s"
    and "drop (Suc (length (before_colon s))) s = after_colon s"
proof -
  from assms show s: "s = before_colon s @ CHR '':'' # after_colon s"
    by (induction s) (auto simp: before_colon_def after_colon_def)
  have "take (length (before_colon s)) (before_colon s @ CHR '':'' # after_colon s) = before_colon s"
    by simp
  with s show "take (length (before_colon s)) s = before_colon s" by simp
  have "drop (Suc (length (before_colon s))) (before_colon s @ CHR '':'' # after_colon s) = after_colon s"
    by simp
  with s show "drop (Suc (length (before_colon s))) s = after_colon s" by simp
qed

lemma colons_before_colon: "colons (before_colon s) = 0"
  by (induction s) (auto simp: before_colon_def colons_def)

lemma colons_split:
  assumes "CHR '':'' \<in> set s"
  shows "colons s = Suc (colons (after_colon s))"
proof -
  have "colons (before_colon s @ CHR '':'' # after_colon s) =
        colons (before_colon s) + Suc (colons (after_colon s))"
    by (simp add: colons_def)
  with split_first_colon(1) [OF assms] show ?thesis
    by (simp add: colons_before_colon)
qed

lemma scan_colon_0: "scan_colon s 0 = length (before_colon s)"
  using scan_colon_takeWhile [of 0 s] by (simp add: before_colon_def)

lemma scan_colon_second:
  assumes "CHR '':'' \<in> set s"
  shows "scan_colon s (Suc (length (before_colon s))) =
         Suc (length (before_colon s)) + length (before_colon (after_colon s))"
proof -
  from assms have "length (before_colon s) < length s"
    using before_colon_full [of s] before_colon_length [of s] by simp
  then have "Suc (length (before_colon s)) \<le> length s" by simp
  from scan_colon_takeWhile [OF this] split_first_colon(3) [OF assms]
  show ?thesis by (simp add: before_colon_def)
qed

lemma SplitCAIP10_eq:
  "SplitCAIP10 s =
     (if s = [] then Inl ErrEmptyValue
      else if colons s < 2 then Inl ErrInvalidFormat
      else Inr (before_colon s, before_colon (after_colon s), after_colon (after_colon s)))"
proof (cases "CHR '':'' \<in> set s")
  case False
  then have "length (before_colon s) = length s" by (simp add: before_colon_full)
  moreover from False have "colons s = 0" by (simp add: colons_zero)
  ultimately show ?thesis by (simp add: SplitCAIP10_def scan_colon_0)
next
  case True
  let ?i = "length (before_colon s)"
  let ?r = "after_colon s"
  from True have ne: "s \<noteq> []" by auto
  from True have i: "?i < length s"
    using before_colon_full [of s] before_colon_length [of s] by simp
  have len: "length s = Suc ?i + length ?r"
    using arg_cong [OF split_first_colon(1) [OF True], of length] by simp
  have j: "scan_colon s (Suc ?i) = Suc ?i + length (before_colon ?r)"
    by (rule scan_colon_second [OF True])
  show ?thesis
  proof (cases "CHR '':'' \<in> set ?r")
    case False
    then have "length (before_colon ?r) = length ?r" by (simp add: before_colon_full)
    moreover from False have "colons s < 2"
      by (simp add: colons_split [OF True] colons_zero [symmetric])
    ultimately show ?thesis using ne i j len
      by (simp add: SplitCAIP10_def scan_colon_0)
  next
    case r: True
    then have k: "length (before_colon ?r) < length ?r"
      using before_colon_full [of ?r] before_colon_length [of ?r] by simp
    have c: "\<not> colons s < 2"
      by (simp add: colons_split [OF True] colons_split [OF r])
    have "subslice s (Suc ?i) (Suc ?i + length (before_colon ?r)) =
          take (length (before_colon ?r)) ?r"
      by (simp add: subslice_def split_first_colon(3) [OF True])
    then have ref: "subslice s (Suc ?i) (Suc ?i + length (before_colon ?r)) = before_colon ?r"
      by (simp add: split_first_colon(2) [OF r])
    have "drop (Suc (Suc ?i + length (before_colon ?r))) s =
          drop (Suc (length (before_colon ?r))) (drop (Suc ?i) s)"
      by (simp add: add.commute)
    then have addr: "drop (Suc (Suc ?i + length (before_colon ?r))) s = after_colon ?r"
      by (simp add: split_first_colon(3) [OF True] split_first_colon(3) [OF r])
    from ne i j k len c ref addr show ?thesis
      by (simp add: SplitCAIP10_def scan_colon_0 split_first_colon(2) [OF True])
  qed
qed

lemma list_ex_index: "list_ex (\<lambda>j. r ! j = c) [0..<length r] \<longleftrightarrow> c \<in> set r"
  by (auto simp: list_ex_iff in_set_conv_nth)

lemma SplitCAIP2_eq:
  "SplitCAIP2 s =
     (if s = [] then Inl ErrEmptyValue
      else if colons s \<noteq> 1 then Inl ErrInvalidFormat
      else Inr (before_colon s, after_colon s))"
proof (cases "CHR '':'' \<in> set s")
  case False
  then have "length (before_colon s) = length s" by (simp add: before_colon_full)
  moreover from False have "colons s = 0" by (simp add: colons_zero)
  ultimately show ?thesis by (simp add: SplitCAIP2_def scan_colon_0)
next
  case True
  from True have ne: "s \<noteq> []" by auto
  from True have i: "length (before_colon s) < length s"
    using before_colon_full [of s] before_colon_length [of s] by simp
  have "colons s = 1 \<longleftrightarrow> CHR '':'' \<notin> set (after_colon s)"
    by (simp add: colons_split [OF True] colons_zero)
  with ne i show ?thesis
    by (simp add: SplitCAIP2_def scan_colon_0 list_ex_index
        split_first_colon(2) [OF True] split_first_colon(3) [OF True])
qed

text \<open>
  C4. \<^verbatim>\<open>SplitCAIP10\<close> fails with \<open>EmptyValue\<close> exactly on the empty string and with
  \<open>InvalidFormat\<close> exactly on a non-empty string with fewer than two colons; on every
  other string it returns the text before the first colon, the text between the first
  and the second colon, and the remainder after the second colon verbatim, colons
  included. \<^verbatim>\<open>SplitCAIP2\<close> returns the text before and after the only colon, and
  rejects with \<open>InvalidFormat\<close> every input whose reference portion has a colon.
\<close>

theorem SplitCAIP10_spec:
  "(SplitCAIP10 s = Inl ErrEmptyValue \<longleftrightarrow> s = []) \<and>
   (SplitCAIP10 s = Inl ErrInvalidFormat \<longleftrightarrow> s \<noteq> [] \<and> colons s < 2) \<and>
   SplitCAIP10 s =
     (if s = [] then Inl ErrEmptyValue
      else if colons s < 2 then Inl ErrInvalidFormat
      else Inr (before_colon s, before_colon (after_colon s), after_colon (after_colon s))) \<and>
   SplitCAIP2 s =
     (if s = [] then Inl ErrEmptyValue
      else if colons s = 0 then Inl ErrInvalidFormat
      else if CHR '':'' \<in> set (after_colon s) then Inl ErrInvalidFormat
      else Inr (before_colon s, after_colon s))"
proof -
  have a: "colons s = 0 \<or> (colons s \<noteq> 0 \<and> colons s = Suc (colons (after_colon s)))"
    using colons_split [of s] colons_zero [of s] by auto
  have "SplitCAIP2 s =
     (if s = [] then Inl ErrEmptyValue
      else if colons s = 0 then Inl ErrInvalidFormat
      else if CHR '':'' \<in> set (after_colon s) then Inl ErrInvalidFormat
      else Inr (before_colon s, after_colon s))"
    using a colons_zero [of "after_colon s"] by (auto simp: SplitCAIP2_eq)
  then show ?thesis
    by (simp add: SplitCAIP10_eq)
qed

section \<open>Decimal numbers\<close>

lemma nat_digits_lt: "n < 10 \<Longrightarrow> nat_digits n = [digit n]"
  by (simp add: nat_digits.simps)

lemma nat_digits_ge:
  "\<not> n < 10 \<Longrightarrow> nat_digits n = nat_digits (n div 10) @ [digit (n mod 10)]"
  by (subst nat_digits.simps) simp

lemma big_String_max:
  "big_String maxEIP155ChainID = ''99999999999999999999999999999999''"
  by (simp add: big_String_def maxEIP155ChainID_def nat_digits_lt nat_digits_ge digit_def)

section \<open>Network tokens\<close>

text \<open>
  C10. \<^verbatim>\<open>SolanaNetwork.String()\<close> and \<^verbatim>\<open>BIP122Network.String()\<close> truncate without an
  error: a token longer than 32 characters gives exactly its first 32 characters, a
  token of 32 characters or fewer is returned unchanged, and \<^verbatim>\<open>NewSolana\<close> and
  \<^verbatim>\<open>NewBIP122\<close> store the truncated token as the reference.
\<close>

theorem network_String_truncates:
  "SolanaNetwork_String n = take 32 n \<and>
   BIP122Network_String n = take 32 n \<and>
   (if length n > 32
    then length (SolanaNetwork_String n) = 32 \<and> length (BIP122Network_String n) = 32
    else SolanaNetwork_String n = n \<and> BIP122Network_String n = n) \<and>
   solana_base (NewSolana X n pk) =
     Some \<lparr>namespace = ''solana'', reference = take 32 n, address = PublicKey_String X pk\<rparr> \<and>
   bip122_base (NewBIP122 n addr) =
     Some \<lparr>namespace = ''bip122'', reference = take 32 n, address = addr\<rparr>"
  by (simp add: SolanaNetwork_String_def BIP122Network_String_def
      NewSolana_def NewBIP122_def newGenericUnchecked_def)

section \<open>EIP-155 chain ids\<close>

lemma NewEIP155_value:
  "bigIntOrIntToBigInt c = Some n \<Longrightarrow>
   NewEIP155 X c addr = Inr (eip155_identifier X (min n (10 ^ 32 - 1)) addr)"
  by (simp add: NewEIP155_def Let_def eip155_identifier_def newGenericUnchecked_def
      maxEIP155ChainID_def min_def)

lemma NewEIP155_in_range:
  "bigIntOrIntToBigInt c = Some n \<Longrightarrow> n \<le> 2 ^ 64 \<Longrightarrow>
   NewEIP155 X c addr = Inr (eip155_identifier X n addr)"
  by (simp add: NewEIP155_def Let_def eip155_identifier_def newGenericUnchecked_def
      maxEIP155ChainID_def)

lemma uint_le_64:
  fixes w :: "'a::len word"
  assumes "LENGTH('a) \<le> 64"
  shows "uint w \<le> 2 ^ 64"
proof -
  have "uint w < 2 ^ LENGTH('a)" by (rule uint_lt2p)
  also have "(2::int) ^ LENGTH('a) \<le> 2 ^ 64"
    using assms by (intro power_increasing) simp_all
  finally show ?thesis by simp
qed

lemma sint_le_64:
  fixes w :: "'a::len word"
  assumes "LENGTH('a) \<le> 64"
  shows "sint w \<le> 2 ^ 64"
proof -
  have "sint w < 2 ^ (LENGTH('a) - 1)" by (rule sint_lt)
  also have "(2::int) ^ (LENGTH('a) - 1) \<le> 2 ^ 64"
    using assms by (intro power_increasing) simp_all
  finally show ?thesis by simp
qed

lemma bigIntOrIntToBigInt_nil:
  "bigIntOrIntToBigInt c = None \<longleftrightarrow> c = BigInt None \<or> c = Uint256 None"
  by (cases c) auto

text \<open>
  C3. \<^verbatim>\<open>NewEIP155\<close> clamps and never rejects. For every address and every chain id,
  given as a \<^verbatim>\<open>*big.Int\<close>, a \<^verbatim>\<open>*uint256.Int\<close> or a machine integer of any width, it
  returns an identifier: the stored chain id and the decimal reference are \<open>10^32 - 1\<close>
  when the value \<open>n\<close> of the argument exceeds \<open>10^32 - 1\<close>, and \<open>n\<close> itself otherwise
  (always, for a machine integer). The only arguments without an identifier are the two
  nil pointers, which are no chain id: there the call panics.
\<close>

theorem NewEIP155_clamps:
  "NewEIP155 X (BigInt (Some n)) addr =
     Inr (eip155_identifier X (if n > 10 ^ 32 - 1 then 10 ^ 32 - 1 else n) addr) \<and>
   NewEIP155 X (Uint256 (Some u256)) addr =
     Inr (eip155_identifier X
            (if uint u256 > 10 ^ 32 - 1 then 10 ^ 32 - 1 else uint u256) addr) \<and>
   NewEIP155 X (GoInt i) addr = Inr (eip155_identifier X (sint i) addr) \<and>
   NewEIP155 X (GoInt8 i8) addr = Inr (eip155_identifier X (sint i8) addr) \<and>
   NewEIP155 X (GoInt16 i16) addr = Inr (eip155_identifier X (sint i16) addr) \<and>
   NewEIP155 X (GoInt32 i32) addr = Inr (eip155_identifier X (sint i32) addr) \<and>
   NewEIP155 X (GoInt64 i64) addr = Inr (eip155_identifier X (sint i64) addr) \<and>
   NewEIP155 X (GoUint u) addr = Inr (eip155_identifier X (uint u) addr) \<and>
   NewEIP155 X (GoUint8 u8) addr = Inr (eip155_identifier X (uint u8) addr) \<and>
   NewEIP155 X (GoUint16 u16) addr = Inr (eip155_identifier X (uint u16) addr) \<and>
   NewEIP155 X (GoUint32 u32) addr = Inr (eip155_identifier X (uint u32) addr) \<and>
   NewEIP155 X (GoUint64 u64) addr = Inr (eip155_identifier X (uint u64) addr) \<and>
   (NewEIP155 X c addr = Inl e \<longleftrightarrow>
      e = PanicNilDereference \<and> (c = BigInt None \<or> c = Uint256 None)) \<and>
   EIP155ChainID (Some (eip155_identifier X m addr)) = Some m \<and>
   GenericAccountID_Reference (eip155_base (eip155_identifier X m addr)) = big_String m \<and>
   big_String (10 ^ 32 - 1) = ''99999999999999999999999999999999''"
proof -
  have e: "NewEIP155 X c addr = Inl e \<longleftrightarrow>
      e = PanicNilDereference \<and> (c = BigInt None \<or> c = Uint256 None)"
    using bigIntOrIntToBigInt_nil [of c]
    by (auto simp: NewEIP155_def Let_def split: option.splits)
  have m: "big_String (10 ^ 32 - 1) = ''99999999999999999999999999999999''"
    using big_String_max by (simp add: maxEIP155ChainID_def)
  have b: "NewEIP155 X (BigInt (Some n)) addr =
     Inr (eip155_identifier X (if n > 10 ^ 32 - 1 then 10 ^ 32 - 1 else n) addr)"
    using NewEIP155_value [of "BigInt (Some n)" n X addr] by (simp add: min_def)
  have u: "NewEIP155 X (Uint256 (Some u256)) addr =
     Inr (eip155_identifier X
            (if uint u256 > 10 ^ 32 - 1 then 10 ^ 32 - 1 else uint u256) addr)"
    using NewEIP155_value [of "Uint256 (Some u256)" "uint u256" X addr] by (simp add: min_def)
  have i: "NewEIP155 X (GoInt i) addr = Inr (eip155_identifier X (sint i) addr)"
    "NewEIP155 X (GoInt8 i8) addr = Inr (eip155_identifier X (sint i8) addr)"
    "NewEIP155 X (GoInt16 i16) addr = Inr (eip155_identifier X (sint i16) addr)"
    "NewEIP155 X (GoInt32 i32) addr = Inr (eip155_identifier X (sint i32) addr)"
    "NewEIP155 X (GoInt64 i64) addr = Inr (eip155_identifier X (sint i64) addr)"
    by (rule NewEIP155_in_range, simp, rule sint_le_64, simp)+
  have w: "NewEIP155 X (GoUint u) addr = Inr (eip155_identifier X (uint u) addr)"
    "NewEIP155 X (GoUint8 u8) addr = Inr (eip155_identifier X (uint u8) addr)"
    "NewEIP155 X (GoUint16 u16) addr = Inr (eip155_identifier X (uint u16) addr)"
    "NewEIP155 X (GoUint32 u32) addr = Inr (eip155_identifier X (uint u32) addr)"
    "NewEIP155 X (GoUint64 u64) addr = Inr (eip155_identifier X (uint u64) addr)"
    by (rule NewEIP155_in_range, simp, rule uint_le_64, simp)+
  have a: "EIP155ChainID (Some (eip155_identifier X m addr)) = Some m"
    "GenericAccountID_Reference (eip155_base (eip155_identifier X m addr)) = big_String m"
    by (simp_all add: EIP155ChainID_def eip155_identifier_def GenericAccountID_Reference_def)
  from e m b u i w a show ?thesis by blast
qed

theorem NewEIP155_clamps_witness:
  "NewEIP155 sample_ext (BigInt (Some (10 ^ 32))) ''0xab16a96D359eC26a11e2C2b3d8f8B8942d5Bfcdb'' =
     Inr \<lparr>eip155_base =
            Some \<lparr>namespace = ''eip155'', reference = ''99999999999999999999999999999999'',
                  address = ''0xab16a96D359eC26a11e2C2b3d8f8B8942d5Bfcdb''\<rparr>,
          ethAddr = ''0xab16a96D359eC26a11e2C2b3d8f8B8942d5Bfcdb'',
          chainID = Some (10 ^ 32 - 1)\<rparr> \<and>
   NewEIP155 sample_ext (BigInt (Some (10 ^ 32 - 1))) ''0xab16a96D359eC26a11e2C2b3d8f8B8942d5Bfcdb'' =
     Inr \<lparr>eip155_base =
            Some \<lparr>namespace = ''eip155'', reference = ''99999999999999999999999999999999'',
                  address = ''0xab16a96D359eC26a11e2C2b3d8f8B8942d5Bfcdb''\<rparr>,
          ethAddr = ''0xab16a96D359eC26a11e2C2b3d8f8B8942d5Bfcdb'',
          chainID = Some (10 ^ 32 - 1)\<rparr>"
  using NewEIP155_clamps [of sample_ext "10 ^ 32" "''0xab16a96D359eC26a11e2C2b3d8f8B8942d5Bfcdb''"]
    NewEIP155_clamps [of sample_ext "10 ^ 32 - 1" "''0xab16a96D359eC26a11e2C2b3d8f8B8942d5Bfcdb''"]
  by (simp add: eip155_identifier_def sample_ext_def)

section \<open>Equality\<close>

lemma IsZero_embedded:
  "AccountID_IsZero a \<longleftrightarrow>
     (case embedded a of Inl _ \<Rightarrow> True | Inr g \<Rightarrow> GenericAccountID_IsZero g)"
  by (cases a rule: embedded.cases)
     (auto simp: eip155AccountID_IsZero_def solanaAccountID_IsZero_def
        bip122AccountID_IsZero_def GenericAccountID_IsZero_def split: option.splits)

lemma nonzero_embedded:
  "\<not> AccountID_IsZero a \<Longrightarrow> \<exists>g. embedded a = Inr (Some g) \<and> \<not> GenericAccountID_IsZero (Some g)"
  by (auto simp: IsZero_embedded GenericAccountID_IsZero_def split: sum.splits option.splits)

lemma GenericAccountID_Equal_eq:
  "GenericAccountID_Equal a other =
     Inr (if GenericAccountID_IsZero a \<or> nil_or_zero other
          then GenericAccountID_IsZero a \<and> nil_or_zero other
          else Inr (GenericAccountID_Namespace a) = AccountID_Namespace (the other) \<and>
               Inr (GenericAccountID_Reference a) = AccountID_Reference (the other) \<and>
               Inr (GenericAccountID_Address a) = AccountID_Address (the other))"
proof (cases "GenericAccountID_IsZero a \<or> nil_or_zero other")
  case True
  then show ?thesis by (auto simp: GenericAccountID_Equal_def)
next
  case False
  then obtain g b where a: "a = Some g" and o: "other = Some b" and nz: "\<not> AccountID_IsZero b"
    by (auto simp: GenericAccountID_IsZero_def nil_or_zero_def split: option.splits)
  from nonzero_embedded [OF nz] obtain h where h: "embedded b = Inr (Some h)" by blast
  from False a o h show ?thesis
    by (auto simp: GenericAccountID_Equal_def AccountID_Namespace_def AccountID_Reference_def
        AccountID_Address_def GenericAccountID_Namespace_def GenericAccountID_Reference_def
        GenericAccountID_Address_def)
qed

text \<open>
  C8. Equality is structural and does not depend on the variant: for every identifier
  \<open>a\<close> and every \<open>other\<close>, of any of the four implementations (\<open>other\<close> possibly the
  nil interface, which counts as zero), \<^verbatim>\<open>a.Equal(other)\<close> returns without a panic,
  and it is true exactly when both are zero values, or neither is and the namespace,
  the reference and the address of the two are the same.
\<close>

theorem Equal_structural:
  "AccountID_Equal a other =
     Inr (case other of
            None \<Rightarrow> AccountID_IsZero a
          | Some b \<Rightarrow>
              (AccountID_IsZero a \<and> AccountID_IsZero b) \<or>
              (\<not> AccountID_IsZero a \<and> \<not> AccountID_IsZero b \<and>
               AccountID_Namespace a = AccountID_Namespace b \<and>
               AccountID_Reference a = AccountID_Reference b \<and>
               AccountID_Address a = AccountID_Address b))"
proof (cases "AccountID_IsZero a \<or> nil_or_zero other")
  case True
  then show ?thesis
    by (cases a)
       (auto simp: GenericAccountID_Equal_def eip155AccountID_Equal_def solanaAccountID_Equal_def
          bip122AccountID_Equal_def nil_or_zero_def split: option.splits)
next
  case False
  then obtain b where o: "other = Some b" and nzb: "\<not> AccountID_IsZero b"
    and nza: "\<not> AccountID_IsZero a"
    by (auto simp: nil_or_zero_def split: option.splits)
  from nonzero_embedded [OF nza] obtain g where g: "embedded a = Inr (Some g)"
    and gz: "\<not> GenericAccountID_IsZero (Some g)" by blast
  have "AccountID_Equal a other = GenericAccountID_Equal (Some g) other"
    using g nza False
    by (cases a rule: embedded.cases)
       (auto simp: eip155AccountID_Equal_def solanaAccountID_Equal_def
          bip122AccountID_Equal_def)
  with g gz o nzb nza show ?thesis
    by (auto simp: GenericAccountID_Equal_eq nil_or_zero_def AccountID_Namespace_def
        AccountID_Reference_def AccountID_Address_def)
qed

section \<open>The binary layout\<close>

lemma copy_at_fill:
  "length pre = off \<Longrightarrow>
   copy_at (pre @ replicate (length src + k) z) off src = pre @ src @ replicate k z"
  by (simp add: copy_at_def replicate_add)

lemma rep4: "replicate (4 + m) z = z # z # z # z # replicate m z"
  by (simp add: eval_nat_numeral)

lemma header_fill:
  "PutUint16 (((replicate (4 + m) z)[0 := x])[1 := y]) 2 v =
     [x, y, byte (v div 256), byte v] @ replicate m z"
  by (simp add: PutUint16_def rep4)

lemma MarshalBinary_layout:
  "MarshalBinary (Some g) =
     [byte (length (namespace g)), byte (length (reference g)),
      byte (uint16 (length (address g)) div 256), byte (uint16 (length (address g)))] @
     namespace g @ reference g @ address g"
proof -
  let ?a = "length (namespace g)" and ?b = "length (reference g)" and ?c = "length (address g)"
  let ?hdr = "[byte ?a, byte ?b, byte (uint16 ?c div 256), byte (uint16 ?c)]"
  have hdr: "PutUint16 (((replicate (4 + ?a + ?b + ?c) (byte 0))[0 := byte ?a])[1 := byte ?b]) 2
               (uint16 ?c) = ?hdr @ replicate (?a + (?b + ?c)) (byte 0)"
    using header_fill [of "?a + (?b + ?c)"] by (simp add: add.assoc)
  have c1: "copy_at (?hdr @ replicate (?a + (?b + ?c)) (byte 0)) 4 (namespace g) =
            ?hdr @ namespace g @ replicate (?b + ?c) (byte 0)"
    by (rule copy_at_fill) simp
  have c2: "copy_at ((?hdr @ namespace g) @ replicate (?b + ?c) (byte 0)) (4 + ?a) (reference g) =
            (?hdr @ namespace g) @ reference g @ replicate ?c (byte 0)"
    by (rule copy_at_fill) simp
  have c3: "copy_at ((?hdr @ namespace g @ reference g) @ replicate (?c + 0) (byte 0))
              (4 + ?a + ?b) (address g) =
            (?hdr @ namespace g @ reference g) @ address g @ replicate 0 (byte 0)"
    by (rule copy_at_fill) simp
  show ?thesis
    unfolding MarshalBinary_def Let_def option.case hdr c1
    using c2 c3 by simp
qed

lemma Uint16_header:
  "4 \<le> length data \<Longrightarrow>
   Uint16 (subslice data 2 4) = of_char (data ! 2) * 256 + of_char (data ! 3)"
  by (simp add: Uint16_def subslice_def numeral_3_eq_3)

text \<open>
  C5. \<^verbatim>\<open>MarshalBinary\<close> emits one byte for the length of the namespace, one byte
  for the length of the reference, two bytes, big-endian, for the length of the address
  (each length reduced to the width of its field), then the namespace, the reference
  and the address; the zero value, a nil pointer included, encodes as four zero bytes;
  \<^verbatim>\<open>UnmarshalBinary\<close> fails with \<open>InvalidFormat\<close> on every input shorter than four bytes
  and on every input whose length differs from 4 plus the three lengths of its header.
\<close>

theorem binary_codec_layout:
  "MarshalBinary (Some g) =
     [byte (length (namespace g)), byte (length (reference g)),
      byte (uint16 (length (address g)) div 256), byte (uint16 (length (address g)))] @
     namespace g @ reference g @ address g \<and>
   MarshalBinary None = [byte 0, byte 0, byte 0, byte 0] \<and>
   MarshalBinary (Some zero_GenericAccountID) = [byte 0, byte 0, byte 0, byte 0] \<and>
   (length data < 4 \<longrightarrow> UnmarshalBinary X a data = Inl ErrInvalidFormat) \<and>
   (4 \<le> length data \<and>
    length data \<noteq> 4 + of_char (data ! 0) + of_char (data ! 1) +
                    (of_char (data ! 2) * 256 + of_char (data ! 3)) \<longrightarrow>
    UnmarshalBinary X a data = Inl ErrInvalidFormat)"
proof -
  have z: "MarshalBinary (Some zero_GenericAccountID) = [byte 0, byte 0, byte 0, byte 0]"
    by (simp add: MarshalBinary_layout zero_GenericAccountID_def uint16_def)
  have n: "MarshalBinary None = [byte 0, byte 0, byte 0, byte 0]"
    by (simp add: MarshalBinary_def)
  have s: "length data < 4 \<longrightarrow> UnmarshalBinary X a data = Inl ErrInvalidFormat"
    by (simp add: UnmarshalBinary_def)
  have m: "4 \<le> length data \<and>
    length data \<noteq> 4 + of_char (data ! 0) + of_char (data ! 1) +
                    (of_char (data ! 2) * 256 + of_char (data ! 3)) \<longrightarrow>
    UnmarshalBinary X a data = Inl ErrInvalidFormat"
    by (simp add: UnmarshalBinary_def Let_def Uint16_header)
  from z n s m MarshalBinary_layout [of g] show ?thesis by blast
qed

theorem binary_codec_layout_witness:
  "MarshalBinary (Some \<lparr>namespace = ''cosmos'', reference = ''hub'', address = ''addr1''\<rparr>) =
     [byte 6, byte 3, byte 0, byte 5] @ ''cosmos'' @ ''hub'' @ ''addr1'' \<and>
   length ''abc'' < (4::nat) \<and>
   UnmarshalBinary sample_ext (Some zero_GenericAccountID) ''abc'' = Inl ErrInvalidFormat \<and>
   UnmarshalBinary sample_ext (Some zero_GenericAccountID) ([byte 6, byte 3, byte 0, byte 5] @ ''cosmos'')
     = Inl ErrInvalidFormat"
  using binary_codec_layout [of "\<lparr>namespace = ''cosmos'', reference = ''hub'', address = ''addr1''\<rparr>"
      "''abc''" sample_ext "Some zero_GenericAccountID"]
    binary_codec_layout [of "\<lparr>namespace = ''cosmos'', reference = ''hub'', address = ''addr1''\<rparr>"
      "[byte 6, byte 3, byte 0, byte 5] @ ''cosmos''" sample_ext "Some zero_GenericAccountID"]
  by (simp add: uint16_def byte_def)

section \<open>The dispatcher\<close>

lemma before_colon_join: "CHR '':'' \<notin> set ns \<Longrightarrow> before_colon (ns @ CHR '':'' # r) = ns"
  by (induction ns) (auto simp: before_colon_def)

lemma after_colon_join: "CHR '':'' \<notin> set ns \<Longrightarrow> after_colon (ns @ CHR '':'' # r) = r"
  by (induction ns) (auto simp: after_colon_def)

lemma colons_join: "colons (ns @ CHR '':'' # r) = colons ns + Suc (colons r)"
  by (simp add: colons_def)

lemma SplitCAIP10_join:
  assumes "CHR '':'' \<notin> set ns" and "CHR '':'' \<notin> set ref"
  shows "SplitCAIP10 (ns @ CHR '':'' # ref @ CHR '':'' # addr) = Inr (ns, ref, addr)"
  using assms
  by (simp add: SplitCAIP10_eq before_colon_join after_colon_join colons_join)

lemma SplitCAIP10_address_with_colons:
  "SplitCAIP10 ''a:b:c:d'' = Inr (''a'', ''b'', ''c:d'')"
  using SplitCAIP10_join [of "''a''" "''b''" "''c:d''"] by simp

lemma strings_Split_no_colon: "CHR '':'' \<notin> set s \<Longrightarrow> strings_Split s = [s]"
  by (induction s) auto

lemma strings_Split_join:
  "CHR '':'' \<notin> set ns \<Longrightarrow> CHR '':'' \<notin> set ref \<Longrightarrow>
   strings_Split (ns @ CHR '':'' # ref) = [ns, ref]"
  by (induction ns) (auto simp: strings_Split_no_colon)

lemma class_no_colon:
  "list_all P s \<Longrightarrow> \<not> P CHR '':'' \<Longrightarrow> CHR '':'' \<notin> set s"
  by (auto simp: list_all_iff)

lemma NamespaceRegex_no_colon: "NamespaceRegex s \<Longrightarrow> CHR '':'' \<notin> set s"
  by (rule class_no_colon [of namespace_char])
     (simp_all add: NamespaceRegex_def class_rep_def namespace_char_def in_range_def)

lemma ReferenceRegex_no_colon: "ReferenceRegex s \<Longrightarrow> CHR '':'' \<notin> set s"
  by (rule class_no_colon [of reference_char])
     (simp_all add: ReferenceRegex_def class_rep_def reference_char_def in_range_def)

lemma builtin_namespaces:
  "NamespaceRegex ''eip155''" "NamespaceRegex ''solana''" "NamespaceRegex ''bip122''"
  by (simp_all add: NamespaceRegex_def class_rep_def namespace_char_def in_range_def)

lemma Validate_generic:
  assumes "ns \<noteq> ''eip155''" "ns \<noteq> ''solana''" "ns \<noteq> ''bip122''"
  shows "Validate X (Some \<lparr>namespace = ns, reference = ref, address = addr\<rparr>) =
           (if \<not> NamespaceRegex ns then Some ErrInvalidNamespace
            else if \<not> ReferenceRegex ref then Some ErrInvalidReference
            else if \<not> AddressRegex addr then Some ErrInvalidAddress
            else None)"
  using assms by (simp add: Validate_def)

lemma NewGeneric_generic:
  assumes "ns \<noteq> ''eip155''" "ns \<noteq> ''solana''" "ns \<noteq> ''bip122''"
  shows "NewGeneric X ns ref addr =
           (if \<not> NamespaceRegex ns then Inl ErrInvalidNamespace
            else if \<not> ReferenceRegex ref then Inl ErrInvalidReference
            else if \<not> AddressRegex addr then Inl ErrInvalidAddress
            else Inr \<lparr>namespace = ns, reference = ref, address = addr\<rparr>)"
  by (simp add: NewGeneric_def Let_def Validate_generic [OF assms])

text \<open>
  C6. \<^verbatim>\<open>Parse("eip155:1")\<close> fails with \<open>InvalidFormat\<close> whatever the registry holds.
  In a registry that holds the three built-in parsers, a string
  \<open>ns:ref:addr\<close> whose namespace matches \<^verbatim>\<open>[-a-z0-9]{3,8}\<close> and is not registered is
  checked by the generic grammar: it gives the generic identifier of the three parts
  when the reference and the address match their generic patterns, and
  \<open>InvalidReference\<close> or \<open>InvalidAddress\<close> otherwise. A string with a registered
  namespace is handed to \<^verbatim>\<open>ParseAddress\<close> of the registered parser.
\<close>

theorem Parse_dispatch:
  "Parse X reg ''eip155:1'' = Inl ErrInvalidFormat \<and>
   (NamespaceRegex ns \<and> reg ns = None \<and>
    reg ''eip155'' \<noteq> None \<and> reg ''solana'' \<noteq> None \<and> reg ''bip122'' \<noteq> None \<and>
    CHR '':'' \<notin> set ref \<longrightarrow>
    Parse X reg (ns @ '':'' @ ref @ '':'' @ addr) =
      (if \<not> ReferenceRegex ref then Inl ErrInvalidReference
       else if \<not> AddressRegex addr then Inl ErrInvalidAddress
       else Inr (Generic (Some \<lparr>namespace = ns, reference = ref, address = addr\<rparr>)))) \<and>
   (reg ns = Some p \<and> CHR '':'' \<notin> set ns \<and> CHR '':'' \<notin> set ref \<longrightarrow>
    Parse X reg (ns @ '':'' @ ref @ '':'' @ addr) = Parser_ParseAddress p ref addr)"
proof (intro conjI impI)
  have "colons ''eip155:1'' = 1" by (simp add: colons_def)
  then show "Parse X reg ''eip155:1'' = Inl ErrInvalidFormat"
    by (simp add: Parse_def SplitCAIP10_eq)
next
  assume h: "NamespaceRegex ns \<and> reg ns = None \<and>
    reg ''eip155'' \<noteq> None \<and> reg ''solana'' \<noteq> None \<and> reg ''bip122'' \<noteq> None \<and>
    CHR '':'' \<notin> set ref"
  then have ns: "ns \<noteq> ''eip155''" "ns \<noteq> ''solana''" "ns \<noteq> ''bip122''" by auto
  from h have "SplitCAIP10 (ns @ '':'' @ ref @ '':'' @ addr) = Inr (ns, ref, addr)"
    by (simp add: SplitCAIP10_join NamespaceRegex_no_colon)
  with h show "Parse X reg (ns @ '':'' @ ref @ '':'' @ addr) =
      (if \<not> ReferenceRegex ref then Inl ErrInvalidReference
       else if \<not> AddressRegex addr then Inl ErrInvalidAddress
       else Inr (Generic (Some \<lparr>namespace = ns, reference = ref, address = addr\<rparr>)))"
    by (simp add: Parse_def NewGeneric_generic [OF ns] as_Generic_def)
next
  assume h: "reg ns = Some p \<and> CHR '':'' \<notin> set ns \<and> CHR '':'' \<notin> set ref"
  then have "SplitCAIP10 (ns @ '':'' @ ref @ '':'' @ addr) = Inr (ns, ref, addr)"
    by (simp add: SplitCAIP10_join)
  with h show "Parse X reg (ns @ '':'' @ ref @ '':'' @ addr) = Parser_ParseAddress p ref addr"
    by (simp add: Parse_def)
qed

lemma init_registry_lookup:
  "init_registry X ''eip155'' = Some (eip155Parser X)"
  "init_registry X ''solana'' = Some (solanaParser X)"
  "init_registry X ''bip122'' = Some bip122Parser"
  "ns \<noteq> ''eip155'' \<Longrightarrow> ns \<noteq> ''solana'' \<Longrightarrow> ns \<noteq> ''bip122'' \<Longrightarrow> init_registry X ns = None"
  by (simp_all add: init_registry_def RegisterParser_def eip155Parser_def solanaParser_def
      bip122Parser_def)

theorem Parse_dispatch_witness:
  "NamespaceRegex ''unknown'' \<and> init_registry sample_ext ''unknown'' = None \<and>
   init_registry sample_ext ''eip155'' \<noteq> None \<and> init_registry sample_ext ''solana'' \<noteq> None \<and>
   init_registry sample_ext ''bip122'' \<noteq> None \<and> CHR '':'' \<notin> set ''1'' \<and>
   Parse sample_ext (init_registry sample_ext) ''unknown:1:addr'' =
     Inr (Generic (Some \<lparr>namespace = ''unknown'', reference = ''1'', address = ''addr''\<rparr>)) \<and>
   init_registry sample_ext ''bip122'' = Some bip122Parser \<and>
   Parse sample_ext (init_registry sample_ext) ''bip122:x:y'' =
     Parser_ParseAddress bip122Parser ''x'' ''y''"
proof -
  have r: "NamespaceRegex ''unknown''" "ReferenceRegex ''1''" "AddressRegex ''addr''"
    by (simp_all add: NamespaceRegex_def ReferenceRegex_def AddressRegex_def class_rep_def
        namespace_char_def reference_char_def address_char_def in_range_def)
  show ?thesis
    using Parse_dispatch [of sample_ext "init_registry sample_ext" "''unknown''" "''1''" "''addr''"]
      Parse_dispatch [of sample_ext "init_registry sample_ext" "''bip122''" "''x''" "''y''"
        bip122Parser]
      r
    by (simp add: init_registry_lookup)
qed

section \<open>The built-in parsers\<close>

lemma nothex_invalid:
  "validateReference ''bip122'' ''nothex'' = Some ErrInvalidReference"
  "ValidateBIP122Address ''nothex'' ''!!'' = Some ErrInvalidAddress"
  by (auto simp: validateReference_def bip122ReferenceRegex_def class_rep_def
      ValidateBIP122Address_def genericBIP122AddressRegex_def prefixed_def list_ex_iff)

text \<open>
  C9. The BIP-122 parser is total and validates nothing: for every reference and every
  address, \<^verbatim>\<open>bip122Parser.ParseAddress\<close> and \<^verbatim>\<open>NewBIP122\<close> return the identifier of
  the reference (cut to 32 characters) and the address. The Solana parser never looks
  at the reference: it succeeds exactly when the address matches the base58 pattern and
  decodes to a public key of 32 bytes. So \<^verbatim>\<open>Parse\<close> accepts
  \<^verbatim>\<open>"bip122:nothex:!!"\<close>, whose reference fails the BIP-122 reference pattern and
  whose address fails the BIP-122 address validation.
\<close>

theorem parsers_without_validation:
  "Parser_ParseAddress bip122Parser ref addr =
     Inr (BIP122 (Some \<lparr>bip122_base =
                          Some \<lparr>namespace = ''bip122'', reference = take 32 ref, address = addr\<rparr>,
                        network = ref\<rparr>)) \<and>
   NewBIP122 ref addr =
     \<lparr>bip122_base = Some \<lparr>namespace = ''bip122'', reference = take 32 ref, address = addr\<rparr>,
      network = ref\<rparr> \<and>
   Parser_ParseAddress (solanaParser X) ref addr =
     (case NewPublicKey X addr of
        None \<Rightarrow> Inl ErrInvalidAddress
      | Some k \<Rightarrow>
          if solanaAddressRegex addr \<and> length (PublicKey_Bytes X k) = 32
          then Inr (Solana (Some (NewSolana X ref k)))
          else Inl ErrInvalidAddress) \<and>
   Parse X (init_registry X) ''bip122:nothex:!!'' =
     Inr (BIP122 (Some \<lparr>bip122_base =
                          Some \<lparr>namespace = ''bip122'', reference = ''nothex'', address = ''!!''\<rparr>,
                        network = ''nothex''\<rparr>)) \<and>
   validateReference ''bip122'' ''nothex'' = Some ErrInvalidReference \<and>
   ValidateBIP122Address ''nothex'' ''!!'' = Some ErrInvalidAddress"
proof -
  have n: "NewBIP122 ref addr =
     \<lparr>bip122_base = Some \<lparr>namespace = ''bip122'', reference = take 32 ref, address = addr\<rparr>,
      network = ref\<rparr>" for ref addr
    by (simp add: NewBIP122_def BIP122Network_String_def newGenericUnchecked_def)
  have b: "Parser_ParseAddress bip122Parser ref addr = Inr (BIP122 (Some (NewBIP122 ref addr)))"
    for ref addr
    by (simp add: bip122Parser_def)
  have s: "Parser_ParseAddress (solanaParser X) ref addr =
     (case NewPublicKey X addr of
        None \<Rightarrow> Inl ErrInvalidAddress
      | Some k \<Rightarrow>
          if solanaAddressRegex addr \<and> length (PublicKey_Bytes X k) = 32
          then Inr (Solana (Some (NewSolana X ref k)))
          else Inl ErrInvalidAddress)"
    by (simp add: solanaParser_def NewSolanaFromBase58_def as_Solana_def SolanaAddressLength_def
        split: option.splits)
  have "SplitCAIP10 (''bip122'' @ CHR '':'' # ''nothex'' @ CHR '':'' # ''!!'') =
        Inr (''bip122'', ''nothex'', ''!!'')"
    by (rule SplitCAIP10_join) simp_all
  then have p: "Parse X (init_registry X) ''bip122:nothex:!!'' =
        Parser_ParseAddress bip122Parser ''nothex'' ''!!''"
    by (simp add: Parse_def init_registry_lookup)
  show ?thesis
    unfolding p b n using s nothex_invalid by simp
qed

section \<open>The namespaces of a ChainID\<close>

lemma validateReference_namespace:
  "validateReference ns ref = Some ErrInvalidNamespace \<longleftrightarrow>
     ns \<notin> {''eip155'', ''solana'', ''bip122''}"
  by (auto simp: validateReference_def split: option.splits)

lemma ParseChainID_join:
  "CHR '':'' \<notin> set ns \<Longrightarrow> CHR '':'' \<notin> set ref \<Longrightarrow>
   ParseChainID (ns @ CHR '':'' # ref) =
     (case validateReference ns ref of
        Some e \<Rightarrow> Inl e
      | None \<Rightarrow> Inr \<lparr>Namespace = ns, Reference = ref\<rparr>)"
  by (simp add: ParseChainID_def strings_Split_join)

text \<open>
  C7, as amended. \<^verbatim>\<open>ParseChainID\<close> and \<^verbatim>\<open>ChainID.Validate\<close> take no registry: the
  namespaces they accept are the three built-ins \<open>eip155\<close>, \<open>solana\<close> and \<open>bip122\<close>
  and no other, whatever parser is registered. The reference validation answers
  \<open>InvalidNamespace\<close> exactly for the other namespaces; \<^verbatim>\<open>ParseChainID\<close> of
  \<open>ns:ref\<close> (neither part with a colon) and \<^verbatim>\<open>Validate\<close> of a non-zero ChainID
  fail with \<open>InvalidNamespace\<close> for every such namespace.
\<close>

theorem ChainID_namespaces_closed:
  "(validateReference ns ref = Some ErrInvalidNamespace \<longleftrightarrow>
      ns \<notin> {''eip155'', ''solana'', ''bip122''}) \<and>
   (ns \<notin> {''eip155'', ''solana'', ''bip122''} \<and> CHR '':'' \<notin> set ns \<and> CHR '':'' \<notin> set ref \<longrightarrow>
      ParseChainID (ns @ '':'' @ ref) = Inl ErrInvalidNamespace) \<and>
   (ns \<notin> {''eip155'', ''solana'', ''bip122''} \<and> (ns \<noteq> [] \<or> ref \<noteq> []) \<longrightarrow>
      ChainID_Validate \<lparr>Namespace = ns, Reference = ref\<rparr> = Some ErrInvalidNamespace)"
proof (intro conjI impI)
  show "validateReference ns ref = Some ErrInvalidNamespace \<longleftrightarrow>
      ns \<notin> {''eip155'', ''solana'', ''bip122''}"
    by (rule validateReference_namespace)
next
  assume h: "ns \<notin> {''eip155'', ''solana'', ''bip122''} \<and> CHR '':'' \<notin> set ns \<and> CHR '':'' \<notin> set ref"
  then have "validateReference ns ref = Some ErrInvalidNamespace"
    by (simp add: validateReference_namespace)
  with h show "ParseChainID (ns @ '':'' @ ref) = Inl ErrInvalidNamespace"
    by (simp add: ParseChainID_join)
next
  assume h: "ns \<notin> {''eip155'', ''solana'', ''bip122''} \<and> (ns \<noteq> [] \<or> ref \<noteq> [])"
  then have "validateReference ns ref = Some ErrInvalidNamespace"
    by (simp add: validateReference_namespace)
  with h show "ChainID_Validate \<lparr>Namespace = ns, Reference = ref\<rparr> = Some ErrInvalidNamespace"
    by (auto simp: ChainID_Validate_def ChainID_IsZero_def)
qed

theorem ChainID_namespaces_closed_witness:
  "''cosmos'' \<notin> {''eip155'', ''solana'', ''bip122''} \<and>
   CHR '':'' \<notin> set ''cosmos'' \<and> CHR '':'' \<notin> set ''hub'' \<and>
   validateReference ''cosmos'' ''hub'' = Some ErrInvalidNamespace \<and>
   ParseChainID ''cosmos:hub'' = Inl ErrInvalidNamespace \<and>
   ChainID_Validate \<lparr>Namespace = ''cosmos'', Reference = ''hub''\<rparr> = Some ErrInvalidNamespace"
  using ChainID_namespaces_closed [of "''cosmos''" "''hub''"] by simp

text \<open>
  The claim C7 as stated fails: with a parser registered for \<open>cosmos\<close>, account
  identifiers of that namespace parse, and its ChainID is still rejected.
\<close>

theorem registered_namespace_rejected:
  "RegisterParser (GenericParser sample_ext ''cosmos'') (init_registry sample_ext) ''cosmos'' =
     Some (GenericParser sample_ext ''cosmos'') \<and>
   Parse sample_ext
     (RegisterParser (GenericParser sample_ext ''cosmos'') (init_registry sample_ext))
     ''cosmos:cosmoshub-3:cosmos1abc'' =
     Inr (Generic (Some \<lparr>namespace = ''cosmos'', reference = ''cosmoshub-3'',
                         address = ''cosmos1abc''\<rparr>)) \<and>
   ParseChainID ''cosmos:cosmoshub-3'' = Inl ErrInvalidNamespace \<and>
   ChainID_Validate \<lparr>Namespace = ''cosmos'', Reference = ''cosmoshub-3''\<rparr> =
     Some ErrInvalidNamespace"
proof -
  let ?reg = "RegisterParser (GenericParser sample_ext ''cosmos'') (init_registry sample_ext)"
  have r: "?reg ''cosmos'' = Some (GenericParser sample_ext ''cosmos'')"
    by (simp add: RegisterParser_def GenericParser_def)
  have s: "SplitCAIP10 (''cosmos'' @ CHR '':'' # ''cosmoshub-3'' @ CHR '':'' # ''cosmos1abc'') =
        Inr (''cosmos'', ''cosmoshub-3'', ''cosmos1abc'')"
    by (rule SplitCAIP10_join) simp_all
  have g: "NewGeneric sample_ext ''cosmos'' ''cosmoshub-3'' ''cosmos1abc'' =
        Inr \<lparr>namespace = ''cosmos'', reference = ''cosmoshub-3'', address = ''cosmos1abc''\<rparr>"
    by (simp add: NewGeneric_generic NamespaceRegex_def ReferenceRegex_def AddressRegex_def
        class_rep_def namespace_char_def reference_char_def address_char_def in_range_def)
  have p: "Parse sample_ext ?reg ''cosmos:cosmoshub-3:cosmos1abc'' =
     Inr (Generic (Some \<lparr>namespace = ''cosmos'', reference = ''cosmoshub-3'',
                         address = ''cosmos1abc''\<rparr>))"
    using s r g by (simp add: Parse_def GenericParser_def as_Generic_def)
  have v: "validateReference ''cosmos'' ''cosmoshub-3'' = Some ErrInvalidNamespace"
    by (simp add: validateReference_def)
  have c: "ParseChainID (''cosmos'' @ CHR '':'' # ''cosmoshub-3'') = Inl ErrInvalidNamespace"
    by (subst ParseChainID_join) (simp_all add: v)
  from r p v c show ?thesis
    by (simp add: ChainID_Validate_def ChainID_IsZero_def)
qed

section \<open>The ChainID of an identifier\<close>

lemma digit_char_no_colon: "list_all digit_char s \<Longrightarrow> CHR '':'' \<notin> set s"
  by (rule class_no_colon [of digit_char]) (simp_all add: digit_char_def in_range_def)

lemma validateReference_ok:
  assumes "validateReference ns ref = None"
  shows "ns \<in> {''eip155'', ''solana'', ''bip122''}" and "CHR '':'' \<notin> set ref"
proof -
  from assms show ns: "ns \<in> {''eip155'', ''solana'', ''bip122''}"
    by (auto simp: validateReference_def split: if_splits)
  show "CHR '':'' \<notin> set ref"
  proof (cases "ns = ''eip155''")
    case True
    with assms have "list_all digit_char ref"
      by (auto simp: validateReference_def ParseUint64_def split: option.splits if_splits)
    then show ?thesis by (rule digit_char_no_colon)
  next
    case False
    note ne = this
    show ?thesis
    proof (cases "ns = ''solana''")
      case True
      with assms have "list_all base58_char ref"
        by (auto simp: validateReference_def solanaReferenceRegex_def class_rep_def
            split: if_splits)
      then show ?thesis
        by (rule class_no_colon) (simp add: base58_char_def in_range_def)
    next
      case False
      with ne ns have "ns = ''bip122''" by simp
      with assms have "list_all hex_lower_char ref"
        by (auto simp: validateReference_def bip122ReferenceRegex_def class_rep_def
            split: if_splits)
      then show ?thesis
        by (rule class_no_colon) (simp add: hex_lower_char_def in_range_def)
    qed
  qed
qed

text \<open>
  C2, as amended. For every identifier \<open>a\<close>, of any implementation and however it was
  built, whose namespace is \<open>eip155\<close>, \<open>solana\<close> or \<open>bip122\<close> and whose reference
  passes the reference validation of ChainID for that namespace, \<^verbatim>\<open>ParseChainID\<close> of
  the CAIP-2 prefix of \<^verbatim>\<open>a.String()\<close> succeeds and returns \<^verbatim>\<open>a.ChainID()\<close>.
\<close>

theorem ChainID_of_prefix:
  assumes "AccountID_ChainID a = Inr c"
    and "validateReference (Namespace c) (Reference c) = None"
  shows "\<exists>s p. AccountID_String a = Inr s \<and> caip2_prefix s = Some p \<and> ParseChainID p = Inr c"
proof -
  from assms(1) obtain g where g: "embedded a = Inr g" and c: "c = GenericAccountID_ChainID g"
    by (cases "embedded a") (auto simp: AccountID_ChainID_def)
  have "g \<noteq> None"
  proof
    assume "g = None"
    with c assms(2) show False
      by (simp add: GenericAccountID_ChainID_def validateReference_def)
  qed
  then obtain r where r: "g = Some r" by auto
  with c have c': "c = \<lparr>Namespace = namespace r, Reference = reference r\<rparr>"
    by (simp add: GenericAccountID_ChainID_def GenericAccountID_Namespace_def
        GenericAccountID_Reference_def)
  with assms(2) have v: "validateReference (namespace r) (reference r) = None" by simp
  from validateReference_ok [OF v]
  have ns: "namespace r \<in> {''eip155'', ''solana'', ''bip122''}"
    and ref: "CHR '':'' \<notin> set (reference r)" .
  from ns have nsc: "CHR '':'' \<notin> set (namespace r)" and nse: "namespace r \<noteq> []" by auto
  let ?s = "namespace r @ CHR '':'' # reference r @ CHR '':'' # address r"
  have s: "AccountID_String a = Inr ?s"
    using g r nse
    by (simp add: AccountID_String_def GenericAccountID_String_def GenericAccountID_IsZero_def)
  have p: "caip2_prefix ?s = Some (namespace r @ CHR '':'' # reference r)"
    by (simp add: caip2_prefix_def SplitCAIP10_join [OF nsc ref])
  have "ParseChainID (namespace r @ CHR '':'' # reference r) = Inr c"
    by (simp add: ParseChainID_join [OF nsc ref] v c')
  with s p show ?thesis by blast
qed

theorem ChainID_of_prefix_witness:
  "AccountID_ChainID
     (Generic (Some \<lparr>namespace = ''eip155'', reference = ''1'', address = ''0xab''\<rparr>)
        :: (string, string) AccountID) =
     Inr \<lparr>Namespace = ''eip155'', Reference = ''1''\<rparr> \<and>
   validateReference ''eip155'' ''1'' = None \<and>
   (\<exists>s p. AccountID_String
            (Generic (Some \<lparr>namespace = ''eip155'', reference = ''1'', address = ''0xab''\<rparr>)
               :: (string, string) AccountID) = Inr s \<and>
          caip2_prefix s = Some p \<and>
          ParseChainID p = Inr \<lparr>Namespace = ''eip155'', Reference = ''1''\<rparr>)"
proof -
  let ?a = "Generic (Some \<lparr>namespace = ''eip155'', reference = ''1'', address = ''0xab''\<rparr>)
              :: (string, string) AccountID"
  have c: "AccountID_ChainID ?a = Inr \<lparr>Namespace = ''eip155'', Reference = ''1''\<rparr>"
    by (simp add: AccountID_ChainID_def GenericAccountID_ChainID_def
        GenericAccountID_Namespace_def GenericAccountID_Reference_def)
  have v: "validateReference (Namespace \<lparr>Namespace = ''eip155'', Reference = ''1''\<rparr>)
             (Reference \<lparr>Namespace = ''eip155'', Reference = ''1''\<rparr>) = None"
    by (simp add: validateReference_def ParseUint64_def digits_value_def digit_char_def
        in_range_def)
  from ChainID_of_prefix [OF c v] c v show ?thesis by simp
qed

text \<open>
  The claim C2 as stated fails: \<^verbatim>\<open>Parse\<close> returns a generic identifier for
  \<^verbatim>\<open>"unknown:1:addr"\<close>, and \<^verbatim>\<open>ParseChainID\<close> rejects the CAIP-2 prefix of its string.
\<close>

theorem ChainID_of_prefix_fails:
  "Parse sample_ext (init_registry sample_ext) ''unknown:1:addr'' =
     Inr (Generic (Some \<lparr>namespace = ''unknown'', reference = ''1'', address = ''addr''\<rparr>)) \<and>
   AccountID_ChainID
     (Generic (Some \<lparr>namespace = ''unknown'', reference = ''1'', address = ''addr''\<rparr>)
        :: (string, string) AccountID) =
     Inr \<lparr>Namespace = ''unknown'', Reference = ''1''\<rparr> \<and>
   AccountID_String
     (Generic (Some \<lparr>namespace = ''unknown'', reference = ''1'', address = ''addr''\<rparr>)
        :: (string, string) AccountID) = Inr ''unknown:1:addr'' \<and>
   caip2_prefix ''unknown:1:addr'' = Some ''unknown:1'' \<and>
   ParseChainID ''unknown:1'' = Inl ErrInvalidNamespace"
proof -
  have s: "SplitCAIP10 (''unknown'' @ CHR '':'' # ''1'' @ CHR '':'' # ''addr'') =
        Inr (''unknown'', ''1'', ''addr'')"
    by (rule SplitCAIP10_join) simp_all
  have g: "NewGeneric sample_ext ''unknown'' ''1'' ''addr'' =
        Inr \<lparr>namespace = ''unknown'', reference = ''1'', address = ''addr''\<rparr>"
    by (simp add: NewGeneric_generic NamespaceRegex_def ReferenceRegex_def AddressRegex_def
        class_rep_def namespace_char_def reference_char_def address_char_def in_range_def)
  have p: "Parse sample_ext (init_registry sample_ext) ''unknown:1:addr'' =
     Inr (Generic (Some \<lparr>namespace = ''unknown'', reference = ''1'', address = ''addr''\<rparr>))"
    using s g by (simp add: Parse_def init_registry_lookup as_Generic_def)
  have c: "ParseChainID (''unknown'' @ CHR '':'' # ''1'') = Inl ErrInvalidNamespace"
    by (subst ParseChainID_join) (simp_all add: validateReference_def)
  from p s c show ?thesis
    by (simp add: AccountID_ChainID_def GenericAccountID_ChainID_def
        GenericAccountID_Namespace_def GenericAccountID_Reference_def AccountID_String_def
        GenericAccountID_String_def GenericAccountID_IsZero_def caip2_prefix_def)
qed

text \<open>
  An identifier of a constructor, with a chain id that needs more than 64 bits:
  \<^verbatim>\<open>ParseChainID\<close> reads the reference with \<^verbatim>\<open>strconv.ParseUint\<close>.
\<close>

lemma eip155_large_chain_id:
  "NewEIP155 sample_ext (BigInt (Some (2 ^ 64))) ''0xab'' =
     Inr \<lparr>eip155_base = Some \<lparr>namespace = ''eip155'', reference = ''18446744073709551616'',
                               address = ''0xab''\<rparr>,
          ethAddr = ''0xab'', chainID = Some (2 ^ 64)\<rparr> \<and>
   ParseChainID ''eip155:18446744073709551616'' = Inl ErrInvalidReference"
proof -
  have c: "ParseChainID (''eip155'' @ CHR '':'' # ''18446744073709551616'') = Inl ErrInvalidReference"
    by (subst ParseChainID_join)
       (simp_all add: validateReference_def ParseUint64_def digits_value_def digit_char_def
          in_range_def)
  have "big_String (2 ^ 64) = ''18446744073709551616''"
    by (simp add: big_String_def nat_digits_lt nat_digits_ge digit_def)
  with c show ?thesis
    by (simp add: NewEIP155_def maxEIP155ChainID_def newGenericUnchecked_def sample_ext_def)
qed

section \<open>Round trips of the codecs\<close>

lemma Validate_ok_namespace: "Validate X (Some a) = None \<Longrightarrow> NamespaceRegex (namespace a)"
  by (auto simp: Validate_def split: if_splits)

lemma NewGeneric_valid:
  "Validate X (Some a) = None \<Longrightarrow>
   NewGeneric X (namespace a) (reference a) (address a) = Inr a"
  by (cases a) (simp add: NewGeneric_def Let_def)

lemma NamespaceRegex_length: "NamespaceRegex s \<Longrightarrow> s \<noteq> [] \<and> length s < 256"
  by (auto simp: NamespaceRegex_def class_rep_def)

lemma String_valid:
  "Validate X (Some a) = None \<Longrightarrow>
   GenericAccountID_String (Some a) =
     namespace a @ CHR '':'' # reference a @ CHR '':'' # address a"
  using NamespaceRegex_length [OF Validate_ok_namespace, of X a]
  by (simp add: GenericAccountID_String_def GenericAccountID_IsZero_def)

lemma UnmarshalText_round_trip:
  assumes "Validate X (Some a) = None" and "CHR '':'' \<notin> set (reference a)"
  shows "UnmarshalText X (Some t) (GenericAccountID_String (Some a)) = Inr a"
proof -
  have "CHR '':'' \<notin> set (namespace a)"
    by (rule NamespaceRegex_no_colon [OF Validate_ok_namespace [OF assms(1)]])
  from SplitCAIP10_join [OF this assms(2)] show ?thesis
    by (simp add: UnmarshalText_def String_valid [OF assms(1)] NewGeneric_valid [OF assms(1)]
        assign_def)
qed

lemma UnmarshalJSON_quoted:
  assumes "s \<noteq> []"
  shows "UnmarshalJSON X t (quote # s @ [quote]) = UnmarshalText X t s"
proof -
  define data where "data = quote # s @ [quote]"
  have n: "data \<noteq> ''null''"
    by (simp add: data_def quote_def)
  have k: "\<not> length data < 2" "data ! 0 = quote"
    by (simp_all add: data_def)
  have l: "data ! (length data - 1) = quote"
    by (simp add: data_def nth_append)
  have "subslice data 1 (length data - 1) = s"
    by (simp add: data_def subslice_def)
  with n k l assms have "UnmarshalJSON X t data = UnmarshalText X t s"
    by (simp add: UnmarshalJSON_def Let_def)
  then show ?thesis by (simp add: data_def)
qed

lemma UnmarshalJSON_empty:
  "UnmarshalJSON X (Some t) [quote, quote] = Inr zero_GenericAccountID"
  by (simp add: UnmarshalJSON_def subslice_def assign_def quote_def)

lemma header_bytes:
  assumes "a < 256" "b < 256" "c < 65536"
  shows "(of_char (byte a) :: nat) = a" "(of_char (byte b) :: nat) = b"
    "(of_char (byte (uint16 c div 256)) :: nat) * 256 + of_char (byte (uint16 c)) = c"
  using assms by (simp_all add: byte_def uint16_def)

lemma subslice_middle:
  "length h = k \<Longrightarrow> subslice (h @ x @ r) k (k + length x) = x"
  by (simp add: subslice_def)

lemma UnmarshalBinary_round_trip:
  assumes v: "Validate X (Some a) = None"
    and r: "length (reference a) < 256" and d: "length (address a) < 65536"
  shows "UnmarshalBinary X (Some t) (MarshalBinary (Some a)) = Inr a"
proof -
  let ?ns = "namespace a" and ?ref = "reference a" and ?addr = "address a"
  define hdr where "hdr = [byte (length ?ns), byte (length ?ref),
    byte (uint16 (length ?addr) div 256), byte (uint16 (length ?addr))]"
  define data where "data = hdr @ ?ns @ ?ref @ ?addr"
  have n: "length ?ns < 256"
    using NamespaceRegex_length [OF Validate_ok_namespace [OF v]] by simp
  note hb = header_bytes [OF n r d]
  have m: "MarshalBinary (Some a) = data"
    by (simp add: MarshalBinary_layout data_def hdr_def)
  have hl: "length hdr = 4" by (simp add: hdr_def)
  have len: "length data = 4 + length ?ns + length ?ref + length ?addr"
    by (simp add: data_def hl)
  have b0: "(of_char (data ! 0) :: nat) = length ?ns"
    using hb(1) by (simp add: data_def hdr_def)
  have b1: "(of_char (data ! 1) :: nat) = length ?ref"
    using hb(2) by (simp add: data_def hdr_def)
  have u: "Uint16 (subslice data 2 4) = length ?addr"
    using hb(3) by (simp add: Uint16_def subslice_def data_def hdr_def)
  have s1: "subslice data 4 (4 + length ?ns) = ?ns"
    unfolding data_def by (rule subslice_middle [OF hl])
  have "subslice ((hdr @ ?ns) @ ?ref @ ?addr) (4 + length ?ns) (4 + length ?ns + length ?ref) = ?ref"
    by (rule subslice_middle) (simp add: hl)
  then have s2: "subslice data (4 + length ?ns) (4 + length ?ns + length ?ref) = ?ref"
    by (simp add: data_def)
  have "subslice ((hdr @ ?ns @ ?ref) @ ?addr @ []) (4 + length ?ns + length ?ref)
              (4 + length ?ns + length ?ref + length ?addr) = ?addr"
    by (rule subslice_middle) (simp add: hl)
  then have s3: "subslice data (4 + length ?ns + length ?ref)
              (4 + length ?ns + length ?ref + length ?addr) = ?addr"
    by (simp add: data_def)
  have "UnmarshalBinary X (Some t) data = Inr a"
    unfolding UnmarshalBinary_def Let_def u b0 b1
    using len s1 s2 s3 NewGeneric_valid [OF v]
    by (simp add: assign_def)
  with m show ?thesis by simp
qed

text \<open>
  C1, as amended. The codecs are those of the generic identifier, which every variant
  embeds. For every identifier \<open>a\<close> that passes \<^verbatim>\<open>Validate\<close>: the text, the JSON and
  the SQL round trip succeed and give \<open>a\<close> again when its reference has no colon, and
  the binary round trip succeeds and gives \<open>a\<close> again when its reference is shorter
  than 256 bytes and its address shorter than 65536 bytes. For every zero value \<open>z\<close>,
  a nil pointer included, the JSON and the SQL round trip give the zero value. The
  receiver of a decoder is any non-nil pointer; what it held before does not matter.
\<close>

theorem codec_round_trips:
  "(Validate X (Some a) = None \<and> CHR '':'' \<notin> set (reference a) \<longrightarrow>
      UnmarshalText X (Some t) (MarshalText (Some a)) = Inr a \<and>
      UnmarshalJSON X (Some t) (MarshalJSON (Some a)) = Inr a \<and>
      Scan X (Some t) (src_of_value (Value (Some a))) = Inr a) \<and>
   (Validate X (Some a) = None \<and> length (reference a) < 256 \<and> length (address a) < 65536 \<longrightarrow>
      UnmarshalBinary X (Some t) (MarshalBinary (Some a)) = Inr a) \<and>
   (GenericAccountID_IsZero z \<longrightarrow>
      UnmarshalJSON X (Some t) (MarshalJSON z) = Inr zero_GenericAccountID \<and>
      Scan X (Some t) (src_of_value (Value z)) = Inr zero_GenericAccountID)"
proof (intro conjI impI)
  assume h: "Validate X (Some a) = None \<and> CHR '':'' \<notin> set (reference a)"
  then have v: "Validate X (Some a) = None" and c: "CHR '':'' \<notin> set (reference a)"
    by simp_all
  have nz: "\<not> GenericAccountID_IsZero (Some a)"
    using NamespaceRegex_length [OF Validate_ok_namespace [OF v]]
    by (simp add: GenericAccountID_IsZero_def)
  have ne: "GenericAccountID_String (Some a) \<noteq> []"
    by (simp add: String_valid [OF v])
  note rt = UnmarshalText_round_trip [OF v c, of t]
  show "UnmarshalText X (Some t) (MarshalText (Some a)) = Inr a"
    using rt by (simp add: MarshalText_def)
  show "UnmarshalJSON X (Some t) (MarshalJSON (Some a)) = Inr a"
    using nz rt by (simp add: MarshalJSON_def UnmarshalJSON_quoted [OF ne])
  show "Scan X (Some t) (src_of_value (Value (Some a))) = Inr a"
    using nz ne rt by (simp add: Value_def)
next
  assume "Validate X (Some a) = None \<and> length (reference a) < 256 \<and>
    length (address a) < 65536"
  then show "UnmarshalBinary X (Some t) (MarshalBinary (Some a)) = Inr a"
    by (simp add: UnmarshalBinary_round_trip)
next
  assume z: "GenericAccountID_IsZero z"
  then show "UnmarshalJSON X (Some t) (MarshalJSON z) = Inr zero_GenericAccountID"
    by (simp add: MarshalJSON_def UnmarshalJSON_empty)
  from z show "Scan X (Some t) (src_of_value (Value z)) = Inr zero_GenericAccountID"
    by (simp add: Value_def assign_def)
qed

lemma cosmos_valid:
  "Validate sample_ext
     (Some \<lparr>namespace = ''cosmos'', reference = ''cosmoshub-3'', address = ''cosmos1abc''\<rparr>) = None"
  by (simp add: Validate_generic NamespaceRegex_def ReferenceRegex_def AddressRegex_def
      class_rep_def namespace_char_def reference_char_def address_char_def in_range_def)

theorem codec_round_trips_witness:
  "Validate sample_ext
     (Some \<lparr>namespace = ''cosmos'', reference = ''cosmoshub-3'', address = ''cosmos1abc''\<rparr>) = None \<and>
   CHR '':'' \<notin> set ''cosmoshub-3'' \<and>
   UnmarshalText sample_ext (Some zero_GenericAccountID) ''cosmos:cosmoshub-3:cosmos1abc'' =
     Inr \<lparr>namespace = ''cosmos'', reference = ''cosmoshub-3'', address = ''cosmos1abc''\<rparr> \<and>
   UnmarshalJSON sample_ext (Some zero_GenericAccountID)
     (quote # ''cosmos:cosmoshub-3:cosmos1abc'' @ [quote]) =
     Inr \<lparr>namespace = ''cosmos'', reference = ''cosmoshub-3'', address = ''cosmos1abc''\<rparr> \<and>
   Scan sample_ext (Some zero_GenericAccountID) (SrcString ''cosmos:cosmoshub-3:cosmos1abc'') =
     Inr \<lparr>namespace = ''cosmos'', reference = ''cosmoshub-3'', address = ''cosmos1abc''\<rparr> \<and>
   UnmarshalBinary sample_ext (Some zero_GenericAccountID)
     ([byte 6, byte 11, byte 0, byte 10] @ ''cosmos'' @ ''cosmoshub-3'' @ ''cosmos1abc'') =
     Inr \<lparr>namespace = ''cosmos'', reference = ''cosmoshub-3'', address = ''cosmos1abc''\<rparr> \<and>
   GenericAccountID_IsZero None \<and>
   UnmarshalJSON sample_ext (Some zero_GenericAccountID) [quote, quote] =
     Inr zero_GenericAccountID \<and>
   Scan sample_ext (Some zero_GenericAccountID) SrcNil = Inr zero_GenericAccountID"
proof -
  let ?a = "\<lparr>namespace = ''cosmos'', reference = ''cosmoshub-3'', address = ''cosmos1abc''\<rparr>"
  have m: "MarshalText (Some ?a) = ''cosmos:cosmoshub-3:cosmos1abc''"
    "MarshalJSON (Some ?a) = quote # ''cosmos:cosmoshub-3:cosmos1abc'' @ [quote]"
    "src_of_value (Value (Some ?a)) = SrcString ''cosmos:cosmoshub-3:cosmos1abc''"
    "MarshalBinary (Some ?a) =
       [byte 6, byte 11, byte 0, byte 10] @ ''cosmos'' @ ''cosmoshub-3'' @ ''cosmos1abc''"
    "MarshalJSON None = [quote, quote]"
    "src_of_value (Value None) = SrcNil"
    "GenericAccountID_IsZero None"
    by (simp_all add: MarshalText_def MarshalJSON_def Value_def GenericAccountID_String_def
        GenericAccountID_IsZero_def MarshalBinary_layout uint16_def byte_def)
  from codec_round_trips [of sample_ext ?a zero_GenericAccountID None] cosmos_valid m
  show ?thesis by simp
qed

text \<open>
  The claim C1 as stated fails: every decoder validates what it has read, and the
  public constructor \<^verbatim>\<open>NewBIP122\<close> validates nothing. The identifier of
  \<^verbatim>\<open>NewBitcoinMainnet("!!")\<close> is encoded by all four encoders and rejected by all
  four decoders.
\<close>

theorem codec_round_trip_fails:
  "bip122_base (NewBIP122 BitcoinMainnet ''!!'') =
     Some \<lparr>namespace = ''bip122'', reference = ''000000000019d6689c085ae165831e93'',
           address = ''!!''\<rparr> \<and>
   UnmarshalText sample_ext (Some zero_GenericAccountID)
     (MarshalText (bip122_base (NewBIP122 BitcoinMainnet ''!!''))) = Inl ErrInvalidAddress \<and>
   UnmarshalBinary sample_ext (Some zero_GenericAccountID)
     (MarshalBinary (bip122_base (NewBIP122 BitcoinMainnet ''!!''))) = Inl ErrInvalidAddress \<and>
   UnmarshalJSON sample_ext (Some zero_GenericAccountID)
     (MarshalJSON (bip122_base (NewBIP122 BitcoinMainnet ''!!''))) = Inl ErrInvalidAddress \<and>
   Scan sample_ext (Some zero_GenericAccountID)
     (src_of_value (Value (bip122_base (NewBIP122 BitcoinMainnet ''!!'')))) =
     Inl ErrInvalidAddress"
proof -
  let ?ref = "''000000000019d6689c085ae165831e93''"
  let ?a = "\<lparr>namespace = ''bip122'', reference = ?ref, address = ''!!''\<rparr>"
  let ?s = "''bip122'' @ CHR '':'' # ?ref @ CHR '':'' # ''!!''"
  have b: "bip122_base (NewBIP122 BitcoinMainnet ''!!'') = Some ?a"
    by (simp add: NewBIP122_def BIP122Network_String_def newGenericUnchecked_def)
  have g: "NewGeneric sample_ext ''bip122'' ?ref ''!!'' = Inl ErrInvalidAddress"
    by (simp add: NewGeneric_def Validate_def builtin_namespaces NewBIP122WithValidation_def
        ValidateBIP122Address_def bitcoinMainnetAddressRegex_def prefixed_def)
  have s: "GenericAccountID_String (Some ?a) = ?s"
    by (simp add: GenericAccountID_String_def GenericAccountID_IsZero_def)
  have sp: "SplitCAIP10 ?s = Inr (''bip122'', ?ref, ''!!'')"
    by (rule SplitCAIP10_join) simp_all
  have t: "UnmarshalText sample_ext (Some zero_GenericAccountID) ?s = Inl ErrInvalidAddress"
    unfolding UnmarshalText_def sp using g by simp
  have j: "UnmarshalJSON sample_ext (Some zero_GenericAccountID) (quote # ?s @ [quote]) =
        Inl ErrInvalidAddress"
    by (subst UnmarshalJSON_quoted) (simp_all add: t [simplified])
  define hdr where "hdr = [byte 6, byte 32, byte 0, byte 2]"
  define data where "data = hdr @ ''bip122'' @ ?ref @ ''!!''"
  have m: "MarshalBinary (Some ?a) = data"
    by (simp add: MarshalBinary_layout uint16_def data_def hdr_def byte_def)
  have hl: "length hdr = 4" by (simp add: hdr_def)
  have u: "Uint16 (subslice data 2 4) = 2" "(of_char (data ! 0) :: nat) = 6"
    "(of_char (data ! 1) :: nat) = 32" "length data = 44"
    by (simp_all add: Uint16_def subslice_def data_def hdr_def byte_def)
  have s1: "subslice data 4 10 = ''bip122''"
    using subslice_middle [OF hl, of "''bip122''" "?ref @ ''!!''"] by (simp add: data_def)
  have s2: "subslice data 10 42 = ?ref"
    using subslice_middle [of "hdr @ ''bip122''" 10 ?ref "''!!''"] by (simp add: data_def hl)
  have s3: "subslice data 42 44 = ''!!''"
    using subslice_middle [of "hdr @ ''bip122'' @ ?ref" 42 "''!!''" "[]"]
    by (simp add: data_def hl)
  have bin: "UnmarshalBinary sample_ext (Some zero_GenericAccountID) data = Inl ErrInvalidAddress"
    unfolding UnmarshalBinary_def Let_def u using s1 s2 s3 g by simp
  from b s t j m bin show ?thesis
    by (simp add: MarshalText_def MarshalJSON_def Value_def GenericAccountID_IsZero_def)
qed

text \<open>
  The zero value under the text and the binary codec: the encoders give the empty text
  and four zero bytes, and the decoders reject both.
\<close>

lemma zero_value_text_binary:
  "MarshalText (Some zero_GenericAccountID) = [] \<and>
   UnmarshalText X (Some t) [] = Inl ErrEmptyValue \<and>
   MarshalBinary (Some zero_GenericAccountID) = [byte 0, byte 0, byte 0, byte 0] \<and>
   UnmarshalBinary X (Some t) [byte 0, byte 0, byte 0, byte 0] = Inl ErrInvalidNamespace"
  by (simp add: MarshalText_def GenericAccountID_String_def GenericAccountID_IsZero_def
      zero_GenericAccountID_def UnmarshalText_def SplitCAIP10_def MarshalBinary_layout uint16_def
      UnmarshalBinary_def Uint16_def subslice_def byte_def NewGeneric_def Validate_def
      NamespaceRegex_def class_rep_def)

end
